theory Spec2Isabelle
  imports Main "HOL-Library.Word" "HOL-Library.Sublist"
begin

section \<open>The SSR screenshot test runner\<close>

text \<open>
  A shallow embedding of \<^verbatim>\<open>src/universal-app/ssr-screenshot-test-runner.ts\<close>.
  The script drives collaborators that live outside the repository (the prerenderer,
  Puppeteer, \<^verbatim>\<open>fast-png\<close>, \<^verbatim>\<open>pixelmatch\<close>, the Bazel runfiles helper, the file system,
  the console). Their answers are the fields of an environment record; every call the
  script makes is appended to a trace, the file system is threaded as state, and an
  exception or \<^verbatim>\<open>process.exit\<close> is an abrupt completion.
\<close>

subsection \<open>Data\<close>

type_synonym byte = "8 word"
type_synonym buffer = "byte list"
type_synonym path = string

text \<open>The fields of a decoded image that the script reads.\<close>

record png =
  width :: nat
  height :: nat
  data :: buffer

text \<open>What a collaborator may throw.\<close>

datatype error =
    TypeError
  | ModuleError
  | RunfilesError
  | LaunchError
  | NavigationError
  | EvaluateError
  | ViewportError
  | CaptureError
  | CloseError
  | FileNotFound
  | WriteError
  | DecodeError
  | EncodeError
  | DiffError

text \<open>
  An argument of \<^verbatim>\<open>console.info\<close> / \<^verbatim>\<open>console.error\<close>. \<open>Quot n d\<close> stands for the
  JavaScript number \<^verbatim>\<open>n / d\<close> (a double; \<^verbatim>\<open>NaN\<close> or \<^verbatim>\<open>Infinity\<close> when \<open>d = 0\<close>); it is
  only ever printed, so it is kept as its two operands.
\<close>

datatype js_value = Str string | Quot nat nat | Thrown error

text \<open>
  The calls the script makes, in the order it makes them. \<open>Evaluate\<close> and \<open>Screenshot\<close>
  record the viewport the page has at the moment of the call.
\<close>

datatype event =
    ImportPrerender
  | Launch path bool
  | NewPage
  | Goto string
  | Evaluate "nat \<times> nat"
  | SetViewport nat nat
  | Screenshot "nat \<times> nat"
  | Close
  | WriteFile path buffer
  | ReadFile path
  | Decode buffer
  | Pixelmatch buffer buffer buffer nat nat
  | Encode png
  | ConsoleInfo "js_value list"
  | ConsoleError "js_value list"
  | ProcessExit nat

record world =
  trace :: "event list"
  files :: "path \<rightharpoonup> buffer"

text \<open>
  How a piece of the script ends: with a value, with a thrown exception, or with
  \<^verbatim>\<open>process.exit(n)\<close>, which stops the process on the spot.
\<close>

datatype 'a completion = Normal 'a | Throw error | Exit nat

text \<open>The Puppeteer page: the only part of its state the script changes is the viewport.\<close>

record page =
  viewport :: "nat \<times> nat"

text \<open>The \<^verbatim>\<open>web_test\<close> metadata: per entry of \<^verbatim>\<open>webTestFiles\<close>, \<^verbatim>\<open>namedFiles.CHROMIUM\<close>.\<close>

record WebTestMetadata =
  webTestFiles :: "string option list option"

text \<open>
  The collaborators. A result \<open>Inl e\<close> means the call throws \<open>e\<close>.
  \<^item> \<open>prerender\<close>: \<^verbatim>\<open>(await import('./prerender')).outputPath\<close>;
  \<^item> \<open>runfiles_resolve\<close>, \<open>resolveWorkspaceRelative\<close>: the Bazel runfiles helper (the
    argument may be \<^verbatim>\<open>undefined\<close>);
  \<^item> \<open>require_metadata\<close>: \<^verbatim>\<open>require\<close> of the metadata file;
  \<^item> \<open>join_strings\<close>: \<^verbatim>\<open>path.join\<close> on two strings;
  \<^item> \<open>launch\<close> \<dots> \<open>close\<close>: Puppeteer; \<open>default_viewport\<close> is the viewport of a fresh
    page, \<open>body_scrollHeight\<close> is \<^verbatim>\<open>document.body.scrollHeight\<close> of the loaded document
    under a given viewport, \<open>screenshot\<close> the PNG bytes captured under a viewport;
  \<^item> \<open>writable\<close>: whether \<^verbatim>\<open>writeFileSync\<close> to a path succeeds;
  \<^item> \<open>decode\<close>, \<open>encode\<close>: \<^verbatim>\<open>fast-png\<close>;
  \<^item> \<open>pixelmatch\<close>: takes both images, the output buffer, width and height, and returns
    the number of differing pixels together with the filled output buffer.
\<close>

record env =
  prerender :: "error + path"
  runfiles_resolve :: "string option \<Rightarrow> error + path"
  resolveWorkspaceRelative :: "string option \<Rightarrow> error + path"
  require_metadata :: "path \<Rightarrow> error + WebTestMetadata"
  join_strings :: "string \<Rightarrow> string \<Rightarrow> path"
  launch :: "path \<Rightarrow> error + unit"
  newPage :: "error + unit"
  default_viewport :: "nat \<times> nat"
  goto :: "string \<Rightarrow> error + unit"
  body_scrollHeight :: "nat \<times> nat \<Rightarrow> error + nat"
  setViewport :: "nat \<times> nat \<Rightarrow> error + unit"
  screenshot :: "nat \<times> nat \<Rightarrow> error + buffer"
  close :: "error + unit"
  writable :: "path \<Rightarrow> bool"
  decode :: "buffer \<Rightarrow> error + png"
  encode :: "png \<Rightarrow> error + buffer"
  pixelmatch :: "buffer \<Rightarrow> buffer \<Rightarrow> buffer \<Rightarrow> nat \<Rightarrow> nat \<Rightarrow> error + nat \<times> buffer"

text \<open>The module-level constants of lines 44--50 and \<^verbatim>\<open>process.env\<close>.\<close>

record globals =
  chromiumExecutableRootPath :: "string option"
  screenshotDiffPath :: path
  process_env :: "string \<rightharpoonup> string"

subsection \<open>Sequencing\<close>

definition emit :: "event \<Rightarrow> world \<Rightarrow> world" where
  "emit ev w = w\<lparr>trace := trace w @ [ev]\<rparr>"

definition return :: "'a \<Rightarrow> world \<Rightarrow> 'a completion \<times> world" where
  "return v w = (Normal v, w)"

text \<open>Statement sequencing: an abrupt completion skips the rest.\<close>

definition bind ::
  "(world \<Rightarrow> 'a completion \<times> world) \<Rightarrow> ('a \<Rightarrow> world \<Rightarrow> 'b completion \<times> world)
    \<Rightarrow> world \<Rightarrow> 'b completion \<times> world" where
  "bind m k w =
     (case m w of
        (Normal v, w') \<Rightarrow> k v w'
      | (Throw e, w') \<Rightarrow> (Throw e, w')
      | (Exit n, w') \<Rightarrow> (Exit n, w'))"

text \<open>A rejected promise with a \<^verbatim>\<open>.catch\<close> handler: the handler runs on a thrown exception.\<close>

definition catch ::
  "(world \<Rightarrow> 'a completion \<times> world) \<Rightarrow> (error \<Rightarrow> world \<Rightarrow> 'a completion \<times> world)
    \<Rightarrow> world \<Rightarrow> 'a completion \<times> world" where
  "catch m h w =
     (case m w of
        (Normal v, w') \<Rightarrow> (Normal v, w')
      | (Throw e, w') \<Rightarrow> h e w'
      | (Exit n, w') \<Rightarrow> (Exit n, w'))"

text \<open>A pure call that may throw.\<close>

definition attempt :: "error + 'a \<Rightarrow> world \<Rightarrow> 'a completion \<times> world" where
  "attempt r w = (case r of Inl e \<Rightarrow> (Throw e, w) | Inr v \<Rightarrow> (Normal v, w))"

text \<open>A call to a collaborator: it is recorded, then it returns or throws.\<close>

definition call :: "event \<Rightarrow> error + 'a \<Rightarrow> world \<Rightarrow> 'a completion \<times> world" where
  "call ev r w = attempt r (emit ev w)"

definition console_info :: "js_value list \<Rightarrow> world \<Rightarrow> unit completion \<times> world" where
  "console_info args w = (Normal (), emit (ConsoleInfo args) w)"

definition console_error :: "js_value list \<Rightarrow> world \<Rightarrow> unit completion \<times> world" where
  "console_error args w = (Normal (), emit (ConsoleError args) w)"

definition process_exit :: "nat \<Rightarrow> world \<Rightarrow> 'a completion \<times> world" where
  "process_exit n w = (Exit n, emit (ProcessExit n) w)"

text \<open>\<^verbatim>\<open>writeFileSync\<close> replaces the whole file or throws; \<^verbatim>\<open>readFileSync\<close> throws on a
  missing file.\<close>

definition writeFileSync :: "env \<Rightarrow> path \<Rightarrow> buffer \<Rightarrow> world \<Rightarrow> unit completion \<times> world" where
  "writeFileSync env p b w =
     (if writable env p
      then (Normal (), emit (WriteFile p b) (w\<lparr>files := (files w)(p \<mapsto> b)\<rparr>))
      else (Throw WriteError, emit (WriteFile p b) w))"

definition readFileSync :: "path \<Rightarrow> world \<Rightarrow> buffer completion \<times> world" where
  "readFileSync p w =
     (case files w p of
        None \<Rightarrow> (Throw FileNotFound, emit (ReadFile p) w)
      | Some b \<Rightarrow> (Normal b, emit (ReadFile p) w))"

subsection \<open>JavaScript helpers\<close>

text \<open>\<^verbatim>\<open>xs[i]\<close>: \<^verbatim>\<open>undefined\<close> out of range.\<close>

definition js_index :: "'a list \<Rightarrow> nat \<Rightarrow> 'a option" where
  "js_index xs i = (if i < length xs then Some (xs ! i) else None)"

text \<open>A possibly undefined string inside a template literal.\<close>

definition js_template :: "string option \<Rightarrow> string" where
  "js_template v = (case v of None \<Rightarrow> ''undefined'' | Some s \<Rightarrow> s)"

text \<open>A non-negative integer inside a template literal: its decimal digits.\<close>

definition digit :: "nat \<Rightarrow> char" where
  "digit d = ''0123456789'' ! d"

fun decimal :: "nat \<Rightarrow> string" where
  "decimal n = (if n < 10 then [digit n] else decimal (n div 10) @ [digit (n mod 10)])"

declare decimal.simps [simp del]

text \<open>\<^verbatim>\<open>s.replace(/\\/g, '/')\<close>.\<close>

definition replace_backslashes :: "string \<Rightarrow> string" where
  "replace_backslashes s = map (\<lambda>c. if c = CHR 0x5C then CHR ''/'' else c) s"

text \<open>\<^verbatim>\<open>path.join(a, b)\<close> of Node: a \<^verbatim>\<open>TypeError\<close> when a segment is not a string.\<close>

definition join :: "env \<Rightarrow> string option \<Rightarrow> string \<Rightarrow> error + path" where
  "join env a b = (case a of None \<Rightarrow> Inl TypeError | Some d \<Rightarrow> Inr (join_strings env d b))"

subsection \<open>The script\<close>

text \<open>Line 53.\<close>

definition screenshotBrowserWidth :: nat where
  "screenshotBrowserWidth = 1920"

text \<open>Lines 114--117.\<close>

definition renderKitchenSinkOnServer :: "env \<Rightarrow> world \<Rightarrow> path completion \<times> world" where
  "renderKitchenSinkOnServer env = call ImportPrerender (prerender env)"

text \<open>Lines 124--133: the height is read first, then the viewport is set.\<close>

definition updateBrowserViewportToMatchContent ::
  "env \<Rightarrow> page \<Rightarrow> world \<Rightarrow> page completion \<times> world" where
  "updateBrowserViewportToMatchContent env pg =
     bind (call (Evaluate (viewport pg)) (body_scrollHeight env (viewport pg)))
       (\<lambda>bodyScrollHeight.
     bind (call (SetViewport screenshotBrowserWidth bodyScrollHeight)
             (setViewport env (screenshotBrowserWidth, bodyScrollHeight)))
       (\<lambda>_.
     return (pg\<lparr>viewport := (screenshotBrowserWidth, bodyScrollHeight)\<rparr>)))"

text \<open>Lines 68--78 of \<^verbatim>\<open>main\<close>: render, launch, navigate, fit the viewport, capture, close.\<close>

definition capture :: "globals \<Rightarrow> env \<Rightarrow> world \<Rightarrow> buffer completion \<times> world" where
  "capture g env =
     bind (renderKitchenSinkOnServer env) (\<lambda>outputPath.
     bind (attempt (runfiles_resolve env (chromiumExecutableRootPath g))) (\<lambda>executablePath.
     bind (call (Launch executablePath True) (launch env executablePath)) (\<lambda>_.
     bind (call NewPage (newPage env)) (\<lambda>_.
     bind (call (Goto (''file://'' @ outputPath)) (goto env (''file://'' @ outputPath))) (\<lambda>_.
     bind (updateBrowserViewportToMatchContent env \<lparr>viewport = default_viewport env\<rparr>) (\<lambda>pg.
     bind (call (Screenshot (viewport pg)) (screenshot env (viewport pg)))
       (\<lambda>currentScreenshotBuffer.
     bind (call Close (close env)) (\<lambda>_.
     return currentScreenshotBuffer))))))))"

text \<open>Lines 80--84 of \<^verbatim>\<open>main\<close>: the approve branch.\<close>

definition approve :: "env \<Rightarrow> path \<Rightarrow> buffer \<Rightarrow> world \<Rightarrow> unit completion \<times> world" where
  "approve env goldenPath currentScreenshotBuffer =
     bind (writeFileSync env goldenPath currentScreenshotBuffer) (\<lambda>_.
     console_info [Str ''Golden screenshot updated.''])"

text \<open>
  Lines 86--90 of \<^verbatim>\<open>main\<close>: decode both images, allocate the zero-filled output buffer
  \<^verbatim>\<open>new Uint8Array({length: currentScreenshot.data.length})\<close>, call \<^verbatim>\<open>pixelmatch\<close> with the
  width and height of the current screenshot. The result is the current screenshot, the
  filled diff buffer and \<^verbatim>\<open>numDiffPixels\<close>.
\<close>

definition compare_screenshots ::
  "env \<Rightarrow> path \<Rightarrow> buffer \<Rightarrow> world \<Rightarrow> (png \<times> buffer \<times> nat) completion \<times> world" where
  "compare_screenshots env goldenPath currentScreenshotBuffer =
     bind (call (Decode currentScreenshotBuffer) (decode env currentScreenshotBuffer))
       (\<lambda>currentScreenshot.
     bind (readFileSync goldenPath) (\<lambda>goldenBytes.
     bind (call (Decode goldenBytes) (decode env goldenBytes)) (\<lambda>goldenScreenshot.
     bind (call (Pixelmatch (data goldenScreenshot) (data currentScreenshot)
                   (replicate (length (data currentScreenshot)) 0)
                   (width currentScreenshot) (height currentScreenshot))
             (pixelmatch env (data goldenScreenshot) (data currentScreenshot)
                   (replicate (length (data currentScreenshot)) 0)
                   (width currentScreenshot) (height currentScreenshot)))
       (\<lambda>(numDiffPixels, diffImageData).
     return (currentScreenshot, diffImageData, numDiffPixels)))))"

text \<open>Lines 92--107 of \<^verbatim>\<open>main\<close>: log the ratio, then branch on \<^verbatim>\<open>numDiffPixels !== 0\<close>.\<close>

definition report ::
  "globals \<Rightarrow> env \<Rightarrow> png \<times> buffer \<times> nat \<Rightarrow> world \<Rightarrow> unit completion \<times> world" where
  "report g env r =
     (case r of (currentScreenshot, diffImageData, numDiffPixels) \<Rightarrow>
     bind (console_error [Str ''diff perc'',
             Quot numDiffPixels (width currentScreenshot * height currentScreenshot)]) (\<lambda>_.
     if numDiffPixels \<noteq> 0 then
       bind (call (Encode \<lparr>width = width currentScreenshot,
                           height = height currentScreenshot, data = diffImageData\<rparr>)
               (encode env \<lparr>width = width currentScreenshot,
                           height = height currentScreenshot, data = diffImageData\<rparr>))
         (\<lambda>encoded.
       bind (writeFileSync env (screenshotDiffPath g) encoded) (\<lambda>_.
       bind (console_error [Str (''Expected golden image to match. '' @ decimal numDiffPixels
                                  @ '' pixels do not match.'')]) (\<lambda>_.
       bind (console_error [Str (''Command to update the golden: yarn bazel run ''
                                  @ js_template (process_env g ''TEST_TARGET'')
                                  @ ''.accept'')]) (\<lambda>_.
       bind (console_error [Str (''See diff: file://''
                                  @ replace_backslashes (screenshotDiffPath g))]) (\<lambda>_.
       process_exit 1)))))
     else console_info [Str ''Screenshot golden matches.'']))"

text \<open>Lines 67--108: \<^verbatim>\<open>main\<close>.\<close>

definition main :: "globals \<Rightarrow> env \<Rightarrow> path \<Rightarrow> bool \<Rightarrow> world \<Rightarrow> unit completion \<times> world" where
  "main g env goldenPath approveGolden =
     bind (capture g env) (\<lambda>currentScreenshotBuffer.
     if approveGolden then approve env goldenPath currentScreenshotBuffer
     else bind (compare_screenshots env goldenPath currentScreenshotBuffer) (report g env))"

text \<open>Lines 60--63: \<^verbatim>\<open>main(...).catch(e => { console.error(e); process.exit(1); })\<close>.\<close>

definition run :: "globals \<Rightarrow> env \<Rightarrow> path \<Rightarrow> bool \<Rightarrow> world \<Rightarrow> unit completion \<times> world" where
  "run g env goldenPath approveGolden =
     catch (main g env goldenPath approveGolden) (\<lambda>e.
       bind (console_error [Thrown e]) (\<lambda>_. process_exit 1))"

text \<open>Line 58: \<^verbatim>\<open>args[1] === 'true'\<close>.\<close>

definition approveGolden_of :: "string list \<Rightarrow> bool" where
  "approveGolden_of args = (js_index args 1 = Some ''true'')"

text \<open>Line 44: \<^verbatim>\<open>webTestMetadata.webTestFiles?.[0].namedFiles.CHROMIUM\<close>.\<close>

definition chromium_of :: "WebTestMetadata \<Rightarrow> error + string option" where
  "chromium_of m =
     (case webTestFiles m of
        None \<Rightarrow> Inr None
      | Some [] \<Rightarrow> Inl TypeError
      | Some (f # _) \<Rightarrow> Inr f)"

text \<open>
  The module, lines 34--64, run with \<^verbatim>\<open>process.env = penv\<close> and \<^verbatim>\<open>process.argv = argv\<close>;
  \<open>is_main\<close> is \<^verbatim>\<open>require.main === module\<close>.
\<close>

definition script ::
  "env \<Rightarrow> (string \<rightharpoonup> string) \<Rightarrow> string list \<Rightarrow> bool \<Rightarrow> world \<Rightarrow> unit completion \<times> world" where
  "script env penv argv is_main =
     (case penv ''WEB_TEST_METADATA'' of
        None \<Rightarrow>
          bind (console_error
                  [Str ''Test running outside of a \"web_test\" target. No browser found.''])
            (\<lambda>_. process_exit 1)
      | Some metadataPath \<Rightarrow>
          bind (attempt (runfiles_resolve env (Some metadataPath))) (\<lambda>resolved.
          bind (attempt (require_metadata env resolved)) (\<lambda>webTestMetadata.
          bind (attempt (chromium_of webTestMetadata)) (\<lambda>chromium.
          bind (attempt (join env (penv ''TEST_UNDECLARED_OUTPUTS_DIR'') ''image-diff.png''))
            (\<lambda>diffPath.
          if is_main then
            bind (attempt (resolveWorkspaceRelative env (js_index (drop 2 argv) 0)))
              (\<lambda>goldenPath.
            run \<lparr>chromiumExecutableRootPath = chromium, screenshotDiffPath = diffPath,
                  process_env = penv\<rparr>
              env goldenPath (approveGolden_of (drop 2 argv)))
          else return ())))))"

text \<open>
  The exit code of the process: 0 when the script runs to its end, the argument of
  \<^verbatim>\<open>process.exit\<close>, and 1 for an exception nobody catches.
\<close>

definition exit_code :: "unit completion \<Rightarrow> nat" where
  "exit_code c = (case c of Normal _ \<Rightarrow> 0 | Exit n \<Rightarrow> n | Throw _ \<Rightarrow> 1)"

text \<open>A run starts with an empty trace.\<close>

definition start :: "(path \<rightharpoonup> buffer) \<Rightarrow> world" where
  "start fs = \<lparr>trace = [], files = fs\<rparr>"

subsection \<open>The pixel-diff primitive of the specification\<close>

text \<open>
  Modelled from the spec: the pixel-diff primitive (\<^verbatim>\<open>pixelmatch\<close>) is a dependency whose
  code is not part of the source tree. The specification describes it as a pure function,
  \<^verbatim>\<open>diff(bufferA, bufferB, outDiffBuffer, width, height) -> differingPixelCount\<close>,
  ``requiring equal dimensions'', that produces ``a per-pixel difference buffer of
  identical dimensions and a count of differing pixels'', over buffers of
  \<open>width \<times> height \<times> channels\<close> bytes. Pixel \<open>i\<close> of a buffer is its \<open>i\<close>-th group of
  \<open>channels\<close> bytes; the count is the number of pixel positions below \<open>width \<times> height\<close>
  where the two buffers differ. The specification does not say how the difference buffer
  is painted (a parameter here) nor what happens to buffers of unequal length (the model
  throws).
\<close>

definition pixel :: "nat \<Rightarrow> buffer \<Rightarrow> nat \<Rightarrow> buffer" where
  "pixel channels b i = take channels (drop (channels * i) b)"

text \<open>
  Modelled from the spec: the positions counted by the missing pixel-diff primitive, ``a
  count of differing pixels'' over \<open>width \<times> height\<close> pixels.
\<close>

definition differing_pixels :: "nat \<Rightarrow> buffer \<Rightarrow> buffer \<Rightarrow> nat \<Rightarrow> nat \<Rightarrow> nat list" where
  "differing_pixels channels a b w h =
     filter (\<lambda>i. pixel channels a i \<noteq> pixel channels b i) [0 ..< w * h]"

text \<open>
  Modelled from the spec: the missing pixel-diff primitive itself,
  \<^verbatim>\<open>diff(bufferA, bufferB, outDiffBuffer, width, height) -> differingPixelCount\<close>, returning
  the count and the painted difference buffer.
\<close>

definition pixel_diff ::
  "nat \<Rightarrow> (buffer \<Rightarrow> buffer \<Rightarrow> buffer \<Rightarrow> buffer)
    \<Rightarrow> buffer \<Rightarrow> buffer \<Rightarrow> buffer \<Rightarrow> nat \<Rightarrow> nat \<Rightarrow> error + nat \<times> buffer" where
  "pixel_diff channels paint a b out w h =
     (if length a \<noteq> length b \<or> length out \<noteq> length a then Inl DiffError
      else Inr (length (differing_pixels channels a b w h), paint a b out))"

subsection \<open>Observations on a run\<close>

text \<open>
  Lines 68--90 in verify mode: the run up to and including the call of \<^verbatim>\<open>pixelmatch\<close>.
  It completes normally exactly when the comparison reports a count.
\<close>

definition compared ::
  "globals \<Rightarrow> env \<Rightarrow> path \<Rightarrow> world \<Rightarrow> (png \<times> buffer \<times> nat) completion \<times> world" where
  "compared g env goldenPath = bind (capture g env) (compare_screenshots env goldenPath)"

text \<open>Every call that \<^verbatim>\<open>main\<close> awaits before \<^verbatim>\<open>browser.close()\<close> returns.\<close>

definition reaches_close :: "globals \<Rightarrow> env \<Rightarrow> bool" where
  "reaches_close g env =
     (case prerender env of Inl _ \<Rightarrow> False | Inr outputPath \<Rightarrow>
     (case runfiles_resolve env (chromiumExecutableRootPath g) of Inl _ \<Rightarrow> False
      | Inr executablePath \<Rightarrow>
     (case launch env executablePath of Inl _ \<Rightarrow> False | Inr _ \<Rightarrow>
     (case newPage env of Inl _ \<Rightarrow> False | Inr _ \<Rightarrow>
     (case goto env (''file://'' @ outputPath) of Inl _ \<Rightarrow> False | Inr _ \<Rightarrow>
     (case body_scrollHeight env (default_viewport env) of Inl _ \<Rightarrow> False | Inr h \<Rightarrow>
     (case setViewport env (screenshotBrowserWidth, h) of Inl _ \<Rightarrow> False | Inr _ \<Rightarrow>
     (case screenshot env (screenshotBrowserWidth, h) of Inl _ \<Rightarrow> False
      | Inr _ \<Rightarrow> True))))))))"

text \<open>The events of the comparison: decoding, reading the golden, diffing, encoding.\<close>

fun is_comparison :: "event \<Rightarrow> bool" where
  "is_comparison (Decode _) = True"
| "is_comparison (ReadFile _) = True"
| "is_comparison (Pixelmatch _ _ _ _ _) = True"
| "is_comparison (Encode _) = True"
| "is_comparison _ = False"

fun written_path :: "event \<Rightarrow> path option" where
  "written_path (WriteFile p _) = Some p"
| "written_path _ = None"

text \<open>
  A piece of the script only appends events that satisfy \<open>P\<close> and leaves every file whose
  path satisfies \<open>F\<close> as it was.
\<close>

definition only ::
  "(event \<Rightarrow> bool) \<Rightarrow> (path \<Rightarrow> bool) \<Rightarrow> (world \<Rightarrow> 'a completion \<times> world) \<Rightarrow> bool" where
  "only P F m \<longleftrightarrow>
     (\<forall>w. (\<exists>evs. trace (snd (m w)) = trace w @ evs \<and> list_all P evs)
        \<and> (\<forall>p. F p \<longrightarrow> files (snd (m w)) p = files w p))"

subsection \<open>A concrete environment\<close>

text \<open>
  A toy image format (one byte of width, one of height, then the pixels), a browser whose
  fresh page is 800 by 600 and whose document is 2400 high at that width and 1000 high
  at width 1920, and a screenshot that is a given buffer.
\<close>

definition toy_decode :: "buffer \<Rightarrow> error + png" where
  "toy_decode b =
     (case b of
        w # h # d \<Rightarrow> Inr \<lparr>width = unat w, height = unat h, data = d\<rparr>
      | _ \<Rightarrow> Inl DecodeError)"

definition toy_encode :: "png \<Rightarrow> error + buffer" where
  "toy_encode p = Inr (of_nat (width p) # of_nat (height p) # data p)"

definition toy_resolve :: "string option \<Rightarrow> error + path" where
  "toy_resolve p = (case p of None \<Rightarrow> Inl RunfilesError | Some s \<Rightarrow> Inr (''/runfiles/'' @ s))"

definition demo_env :: "buffer \<Rightarrow> env" where
  "demo_env shot =
     \<lparr>prerender = Inr ''/out/index.html'',
      runfiles_resolve = toy_resolve,
      resolveWorkspaceRelative = toy_resolve,
      require_metadata = (\<lambda>_. Inr \<lparr>webTestFiles = Some [Some ''chrome'']\<rparr>),
      join_strings = (\<lambda>a b. a @ ''/'' @ b),
      launch = (\<lambda>_. Inr ()),
      newPage = Inr (),
      default_viewport = (800, 600),
      goto = (\<lambda>_. Inr ()),
      body_scrollHeight = (\<lambda>v. Inr (if fst v = 1920 then 1000 else 2400)),
      setViewport = (\<lambda>_. Inr ()),
      screenshot = (\<lambda>_. Inr shot),
      close = Inr (),
      writable = (\<lambda>_. True),
      decode = toy_decode,
      encode = toy_encode,
      pixelmatch = pixel_diff 4 (\<lambda>a b out. out)\<rparr>"

definition demo_globals :: globals where
  "demo_globals =
     \<lparr>chromiumExecutableRootPath = Some ''chrome'',
      screenshotDiffPath = ''/out/image-diff.png'',
      process_env = [''TEST_TARGET'' \<mapsto> ''//app:test'']\<rparr>"

text \<open>
  Red images of 2 by 2, 2 by 1 (two wide, one high) and 1 by 2 pixels, and a 2 by 2 image
  with one blue pixel.
\<close>

definition red_2x2 :: buffer where
  "red_2x2 = [2, 2, 255, 0, 0, 255, 255, 0, 0, 255, 255, 0, 0, 255, 255, 0, 0, 255]"

definition red_2x1 :: buffer where
  "red_2x1 = [2, 1, 255, 0, 0, 255, 255, 0, 0, 255]"

definition red_1x2 :: buffer where
  "red_1x2 = [1, 2, 255, 0, 0, 255, 255, 0, 0, 255]"

definition one_blue_2x2 :: buffer where
  "one_blue_2x2 = [2, 2, 255, 0, 0, 255, 255, 0, 0, 255, 0, 0, 255, 255, 255, 0, 0, 255]"

definition golden_at :: "path \<Rightarrow> buffer \<Rightarrow> path \<rightharpoonup> buffer" where
  "golden_at p b = [p \<mapsto> b]"

subsection \<open>Sequencing\<close>

text \<open>Sequencing is associative, so \<^verbatim>\<open>main\<close> can be cut after the capture or after the comparison.\<close>

lemma bind_assoc: "bind (bind m k) k' = bind m (\<lambda>v. bind (k v) k')"
  by (rule ext) (simp add: bind_def split: prod.splits completion.splits)

lemma main_verify: "main g env gp False = bind (compared g env gp) (report g env)"
  by (simp add: main_def compared_def bind_assoc)

lemma main_approve: "main g env gp True = bind (capture g env) (approve env gp)"
  by (simp add: main_def)

subsection \<open>What a piece of the script may add\<close>

text \<open>The predicate \<open>only\<close> is preserved by every way the script composes its steps.\<close>

lemma only_mono:
  assumes "only P F m" and "\<And>e. P e \<Longrightarrow> Q e" and "\<And>p. G p \<Longrightarrow> F p"
  shows "only Q G m"
  using assms unfolding only_def by (metis (mono_tags, lifting) list.pred_mono_strong)

lemma only_return: "only P F (return v)"
  by (simp add: only_def return_def)

lemma only_attempt: "only P F (attempt r)"
  by (simp add: only_def attempt_def split: sum.splits)

lemma only_call: "P ev \<Longrightarrow> only P F (call ev r)"
  by (simp add: only_def call_def attempt_def emit_def split: sum.splits)

lemma only_console_info: "P (ConsoleInfo a) \<Longrightarrow> only P F (console_info a)"
  by (simp add: only_def console_info_def emit_def)

lemma only_console_error: "P (ConsoleError a) \<Longrightarrow> only P F (console_error a)"
  by (simp add: only_def console_error_def emit_def)

lemma only_process_exit: "P (ProcessExit n) \<Longrightarrow> only P F (process_exit n)"
  by (simp add: only_def process_exit_def emit_def)

lemma only_writeFileSync: "P (WriteFile p b) \<Longrightarrow> \<not> F p \<Longrightarrow> only P F (writeFileSync env p b)"
  by (auto simp add: only_def writeFileSync_def emit_def)

lemma only_readFileSync: "P (ReadFile p) \<Longrightarrow> only P F (readFileSync p)"
  by (simp add: only_def readFileSync_def emit_def split: option.splits)

lemma only_bind:
  assumes m: "only P F m" and k: "\<And>v. only P F (k v)"
  shows "only P F (bind m k)"
  unfolding only_def
proof (intro allI)
  fix w
  from m obtain evs where evs: "trace (snd (m w)) = trace w @ evs" "list_all P evs"
    and fr: "\<forall>p. F p \<longrightarrow> files (snd (m w)) p = files w p"
    unfolding only_def by blast
  show "(\<exists>evs. trace (snd (bind m k w)) = trace w @ evs \<and> list_all P evs) \<and>
        (\<forall>p. F p \<longrightarrow> files (snd (bind m k w)) p = files w p)"
  proof (cases "m w")
    case (Pair c w1)
    show ?thesis
    proof (cases c)
      case (Normal v)
      from k [of v] obtain evs' where evs':
        "trace (snd (k v w1)) = trace w1 @ evs'" "list_all P evs'"
        and fr': "\<forall>p. F p \<longrightarrow> files (snd (k v w1)) p = files w1 p"
        unfolding only_def by blast
      have b: "bind m k w = k v w1" using Pair Normal by (simp add: bind_def)
      have "trace (snd (bind m k w)) = trace w @ (evs @ evs')"
        using b evs evs' Pair by simp
      moreover have "list_all P (evs @ evs')" using evs evs' by simp
      moreover have "\<forall>p. F p \<longrightarrow> files (snd (bind m k w)) p = files w p"
        using b fr fr' Pair by simp
      ultimately show ?thesis by blast
    next
      case (Throw e)
      then have "snd (bind m k w) = snd (m w)" using Pair by (simp add: bind_def)
      then show ?thesis using evs fr by auto
    next
      case (Exit n)
      then have "snd (bind m k w) = snd (m w)" using Pair by (simp add: bind_def)
      then show ?thesis using evs fr by auto
    qed
  qed
qed

lemma only_catch:
  assumes m: "only P F m" and h: "\<And>e. only P F (h e)"
  shows "only P F (catch m h)"
  unfolding only_def
proof (intro allI)
  fix w
  from m obtain evs where evs: "trace (snd (m w)) = trace w @ evs" "list_all P evs"
    and fr: "\<forall>p. F p \<longrightarrow> files (snd (m w)) p = files w p"
    unfolding only_def by blast
  show "(\<exists>evs. trace (snd (catch m h w)) = trace w @ evs \<and> list_all P evs) \<and>
        (\<forall>p. F p \<longrightarrow> files (snd (catch m h w)) p = files w p)"
  proof (cases "m w")
    case (Pair c w1)
    show ?thesis
    proof (cases c)
      case (Throw e)
      from h [of e] obtain evs' where evs':
        "trace (snd (h e w1)) = trace w1 @ evs'" "list_all P evs'"
        and fr': "\<forall>p. F p \<longrightarrow> files (snd (h e w1)) p = files w1 p"
        unfolding only_def by blast
      have b: "catch m h w = h e w1" using Pair Throw by (simp add: catch_def)
      have "trace (snd (catch m h w)) = trace w @ (evs @ evs')"
        using b evs evs' Pair by simp
      moreover have "list_all P (evs @ evs')" using evs evs' by simp
      moreover have "\<forall>p. F p \<longrightarrow> files (snd (catch m h w)) p = files w p"
        using b fr fr' Pair by simp
      ultimately show ?thesis by blast
    next
      case (Normal v)
      then have "snd (catch m h w) = snd (m w)" using Pair by (simp add: catch_def)
      then show ?thesis using evs fr by auto
    next
      case (Exit n)
      then have "snd (catch m h w) = snd (m w)" using Pair by (simp add: catch_def)
      then show ?thesis using evs fr by auto
    qed
  qed
qed

lemma only_if: "only P F a \<Longrightarrow> only P F b \<Longrightarrow> only P F (if c then a else b)"
  by simp

lemma only_case_prod: "(\<And>a b. only P F (f a b)) \<Longrightarrow> only P F (case_prod f x)"
  by (cases x) simp

lemmas only_intros =
  only_bind only_catch only_if only_case_prod only_return only_attempt only_call
  only_console_info only_console_error only_process_exit only_writeFileSync only_readFileSync

lemma only_traceD:
  "only P F m \<Longrightarrow> \<exists>evs. trace (snd (m w)) = trace w @ evs \<and> list_all P evs"
  by (simp add: only_def)

lemma only_filesD: "only P F m \<Longrightarrow> F p \<Longrightarrow> files (snd (m w)) p = files w p"
  by (simp add: only_def)

text \<open>The events and writes of each part of \<^verbatim>\<open>main\<close>.\<close>

lemma only_capture:
  "only (\<lambda>e. \<not> is_comparison e \<and> written_path e = None) (\<lambda>_. True) (capture g env)"
  unfolding capture_def renderKitchenSinkOnServer_def updateBrowserViewportToMatchContent_def
  by (intro only_intros; simp)

lemma only_compare_screenshots:
  "only (\<lambda>e. e \<noteq> Close \<and> written_path e = None) (\<lambda>_. True) (compare_screenshots env gp buf)"
  unfolding compare_screenshots_def
  by (intro only_intros; simp)

lemma only_report:
  "only (\<lambda>e. e \<noteq> Close \<and> (written_path e = None \<or> written_path e = Some (screenshotDiffPath g)))
     (\<lambda>p. p \<noteq> screenshotDiffPath g) (report g env r)"
  unfolding report_def
  by (intro only_intros; simp)

lemma only_approve:
  "only (\<lambda>e. e \<noteq> Close \<and> \<not> is_comparison e \<and> (written_path e = None \<or> written_path e = Some gp))
     (\<lambda>p. p \<noteq> gp) (approve env gp buf)"
  unfolding approve_def
  by (intro only_intros; simp)

lemma only_handler:
  "only (\<lambda>e. e \<noteq> Close \<and> \<not> is_comparison e \<and> written_path e = None) (\<lambda>_. True)
     (bind (console_error [Thrown e]) (\<lambda>_. process_exit 1))"
  by (intro only_intros; simp)

subsection \<open>The paths through the capture and the report\<close>

lemmas step_defs =
  bind_def return_def attempt_def call_def emit_def console_info_def console_error_def
  process_exit_def writeFileSync_def readFileSync_def catch_def

text \<open>A capture that returns has made its eight calls, each of which returned.\<close>

lemma capture_NormalD:
  assumes "capture g env w = (Normal buf, w1)"
  shows "\<exists>outputPath executablePath h.
           prerender env = Inr outputPath
         \<and> runfiles_resolve env (chromiumExecutableRootPath g) = Inr executablePath
         \<and> launch env executablePath = Inr ()
         \<and> newPage env = Inr ()
         \<and> goto env (''file://'' @ outputPath) = Inr ()
         \<and> body_scrollHeight env (default_viewport env) = Inr h
         \<and> setViewport env (screenshotBrowserWidth, h) = Inr ()
         \<and> screenshot env (screenshotBrowserWidth, h) = Inr buf
         \<and> close env = Inr ()
         \<and> w1 = w\<lparr>trace := trace w @
              [ImportPrerender, Launch executablePath True, NewPage,
               Goto (''file://'' @ outputPath), Evaluate (default_viewport env),
               SetViewport screenshotBrowserWidth h,
               Screenshot (screenshotBrowserWidth, h), Close]\<rparr>"
  using assms
  unfolding capture_def renderKitchenSinkOnServer_def updateBrowserViewportToMatchContent_def
  by (auto simp add: step_defs split: sum.splits)

lemma list_all_count_zero: "list_all (\<lambda>e. e \<noteq> x) evs \<Longrightarrow> count_list evs x = 0"
  by (induction evs) auto

text \<open>The two ends of the report, and its exit code.\<close>

lemma report_zero:
  "report g env (c, d, 0) w =
     (Normal (), w\<lparr>trace := trace w @
        [ConsoleError [Str ''diff perc'', Quot 0 (width c * height c)],
         ConsoleInfo [Str ''Screenshot golden matches.'']]\<rparr>)"
  by (simp add: report_def step_defs)

lemma report_nonzero:
  assumes "n \<noteq> 0"
    and "encode env \<lparr>width = width c, height = height c, data = d\<rparr> = Inr enc"
    and "writable env (screenshotDiffPath g)"
  shows "report g env (c, d, n) w =
     (Exit 1, w\<lparr>trace := trace w @
        [ConsoleError [Str ''diff perc'', Quot n (width c * height c)],
         Encode \<lparr>width = width c, height = height c, data = d\<rparr>,
         WriteFile (screenshotDiffPath g) enc,
         ConsoleError [Str (''Expected golden image to match. '' @ decimal n
                            @ '' pixels do not match.'')],
         ConsoleError [Str (''Command to update the golden: yarn bazel run ''
                            @ js_template (process_env g ''TEST_TARGET'') @ ''.accept'')],
         ConsoleError [Str (''See diff: file://''
                            @ replace_backslashes (screenshotDiffPath g))],
         ProcessExit 1],
       files := (files w)(screenshotDiffPath g \<mapsto> enc)\<rparr>)"
  using assms by (simp add: report_def step_defs)

lemma exit_code_handler:
  "exit_code (fst (catch m (\<lambda>e. bind (console_error [Thrown e]) (\<lambda>_. process_exit 1)) w)) =
     (case fst (m w) of Normal _ \<Rightarrow> 0 | Throw _ \<Rightarrow> 1 | Exit n \<Rightarrow> n)"
  by (simp add: step_defs exit_code_def split: prod.splits completion.splits)

lemma report_exit:
  "(case fst (report g env (c, d, n) w) of Normal _ \<Rightarrow> 0 | Throw _ \<Rightarrow> 1 | Exit k \<Rightarrow> k)
     = (if n = 0 then 0 else (1::nat))"
  by (simp add: report_def step_defs split: sum.splits)

text \<open>The capture calls \<open>close\<close> once if it gets that far, and not at all otherwise.\<close>

lemma capture_count:
  "count_list (trace (snd (capture g env w))) Close =
     count_list (trace w) Close + (if reaches_close g env then 1 else 0)"
proof -
  note defs = capture_def renderKitchenSinkOnServer_def
    updateBrowserViewportToMatchContent_def reaches_close_def step_defs
  show ?thesis
  proof (cases "prerender env")
    case (Inl e)
    then show ?thesis by (simp add: defs)
  next
    case a: (Inr outputPath)
    show ?thesis
    proof (cases "runfiles_resolve env (chromiumExecutableRootPath g)")
      case (Inl e)
      with a show ?thesis by (simp add: defs)
    next
      case b: (Inr executablePath)
      show ?thesis
      proof (cases "launch env executablePath")
        case (Inl e)
        with a b show ?thesis by (simp add: defs)
      next
        case c: (Inr u1)
        show ?thesis
        proof (cases "newPage env")
          case (Inl e)
          with a b c show ?thesis by (simp add: defs)
        next
          case d: (Inr u2)
          show ?thesis
          proof (cases "goto env (''file://'' @ outputPath)")
            case (Inl e)
            with a b c d show ?thesis by (simp add: defs)
          next
            case e: (Inr u3)
            show ?thesis
            proof (cases "body_scrollHeight env (default_viewport env)")
              case (Inl x)
              with a b c d e show ?thesis by (simp add: defs)
            next
              case f: (Inr h)
              show ?thesis
              proof (cases "setViewport env (screenshotBrowserWidth, h)")
                case (Inl x)
                with a b c d e f show ?thesis by (simp add: defs)
              next
                case g: (Inr u4)
                show ?thesis
                proof (cases "screenshot env (screenshotBrowserWidth, h)")
                  case (Inl x)
                  with a b c d e f g show ?thesis by (simp add: defs)
                next
                  case (Inr buf)
                  with a b c d e f g show ?thesis
                    by (cases "close env") (simp_all add: defs)
                qed
              qed
            qed
          qed
        qed
      qed
    qed
  qed
qed

text \<open>What a continuation or a handler appends to the trace of what ran before it.\<close>

lemma bind_extends:
  assumes k: "\<And>v. only P F (k v)"
  shows "\<exists>evs. trace (snd (bind m k w)) = trace (snd (m w)) @ evs \<and> list_all P evs
           \<and> (\<forall>p. F p \<longrightarrow> files (snd (bind m k w)) p = files (snd (m w)) p)"
proof (cases "m w")
  case (Pair c w1)
  show ?thesis
  proof (cases c)
    case (Normal v)
    then have "bind m k w = k v w1" using Pair by (simp add: bind_def)
    then show ?thesis using k [of v] Pair unfolding only_def by simp
  next
    case (Throw e)
    then have "snd (bind m k w) = snd (m w)" using Pair by (simp add: bind_def)
    then show ?thesis by simp
  next
    case (Exit n)
    then have "snd (bind m k w) = snd (m w)" using Pair by (simp add: bind_def)
    then show ?thesis by simp
  qed
qed

lemma catch_extends:
  assumes h: "\<And>e. only P F (h e)"
  shows "\<exists>evs. trace (snd (catch m h w)) = trace (snd (m w)) @ evs \<and> list_all P evs
           \<and> (\<forall>p. F p \<longrightarrow> files (snd (catch m h w)) p = files (snd (m w)) p)"
proof (cases "m w")
  case (Pair c w1)
  show ?thesis
  proof (cases c)
    case (Throw e)
    then have "catch m h w = h e w1" using Pair by (simp add: catch_def)
    then show ?thesis using h [of e] Pair unfolding only_def by simp
  next
    case (Normal v)
    then have "snd (catch m h w) = snd (m w)" using Pair by (simp add: catch_def)
    then show ?thesis by simp
  next
    case (Exit n)
    then have "snd (catch m h w) = snd (m w)" using Pair by (simp add: catch_def)
    then show ?thesis by simp
  qed
qed

text \<open>What follows the capture adds no call of \<open>close\<close>.\<close>

lemma only_after_capture:
  "only (\<lambda>e. e \<noteq> Close \<and> True) (\<lambda>_. False)
     (if ap then approve env gp buf else bind (compare_screenshots env gp buf) (report g env))"
proof -
  have 1: "only (\<lambda>e. e \<noteq> Close \<and> True) (\<lambda>_. False) (approve env gp buf)"
    by (rule only_mono [OF only_approve]) simp_all
  have 2: "only (\<lambda>e. e \<noteq> Close \<and> True) (\<lambda>_. False) (compare_screenshots env gp buf)"
    by (rule only_mono [OF only_compare_screenshots]) simp_all
  have 3: "only (\<lambda>e. e \<noteq> Close \<and> True) (\<lambda>_. False) (report g env r)" for r
    by (rule only_mono [OF only_report]) simp_all
  show ?thesis using 1 2 3 by (simp add: only_bind)
qed

lemma only_handler_no_close:
  "only (\<lambda>e. e \<noteq> Close \<and> True) (\<lambda>_. False)
     (bind (console_error [Thrown e]) (\<lambda>_. process_exit 1))"
  by (rule only_mono [OF only_handler]) simp_all

lemma run_count_close:
  "count_list (trace (snd (run g env gp ap w))) Close =
     count_list (trace w) Close + (if reaches_close g env then 1 else 0)"
proof -
  let ?rest = "\<lambda>buf. if ap then approve env gp buf
                 else bind (compare_screenshots env gp buf) (report g env)"
  let ?h = "\<lambda>e. bind (console_error [Thrown e]) (\<lambda>_. process_exit 1)"
  have run: "run g env gp ap = catch (bind (capture g env) ?rest) ?h"
    by (simp add: run_def main_def)
  obtain evs1 where 1: "trace (snd (bind (capture g env) ?rest w)) =
      trace (snd (capture g env w)) @ evs1" "list_all (\<lambda>e. e \<noteq> Close \<and> True) evs1"
    using bind_extends [of "\<lambda>e. e \<noteq> Close \<and> True" "\<lambda>_. False" ?rest "capture g env" w]
      only_after_capture by blast
  obtain evs2 where 2: "trace (snd (catch (bind (capture g env) ?rest) ?h w)) =
      trace (snd (bind (capture g env) ?rest w)) @ evs2" "list_all (\<lambda>e. e \<noteq> Close \<and> True) evs2"
    using catch_extends [of "\<lambda>e. e \<noteq> Close \<and> True" "\<lambda>_. False" ?h "bind (capture g env) ?rest" w]
      only_handler_no_close by blast
  have "count_list evs1 Close = 0" "count_list evs2 Close = 0"
    using 1 2 by (simp_all add: list_all_count_zero)
  then show ?thesis
    using 1 2 by (simp add: run capture_count)
qed

lemma capture_reaches:
  assumes "reaches_close g env"
  shows "\<exists>outputPath executablePath h.
           prerender env = Inr outputPath
         \<and> runfiles_resolve env (chromiumExecutableRootPath g) = Inr executablePath
         \<and> body_scrollHeight env (default_viewport env) = Inr h
         \<and> trace (snd (capture g env w)) = trace w @
              [ImportPrerender, Launch executablePath True, NewPage,
               Goto (''file://'' @ outputPath), Evaluate (default_viewport env),
               SetViewport screenshotBrowserWidth h,
               Screenshot (screenshotBrowserWidth, h), Close]"
proof -
  from assms obtain outputPath executablePath h buf where f:
    "prerender env = Inr outputPath"
    "runfiles_resolve env (chromiumExecutableRootPath g) = Inr executablePath"
    "launch env executablePath = Inr ()"
    "newPage env = Inr ()"
    "goto env (''file://'' @ outputPath) = Inr ()"
    "body_scrollHeight env (default_viewport env) = Inr h"
    "setViewport env (screenshotBrowserWidth, h) = Inr ()"
    "screenshot env (screenshotBrowserWidth, h) = Inr buf"
    unfolding reaches_close_def by (auto split: sum.splits)
  have "trace (snd (capture g env w)) = trace w @
              [ImportPrerender, Launch executablePath True, NewPage,
               Goto (''file://'' @ outputPath), Evaluate (default_viewport env),
               SetViewport screenshotBrowserWidth h,
               Screenshot (screenshotBrowserWidth, h), Close]"
    using f unfolding capture_def renderKitchenSinkOnServer_def
      updateBrowserViewportToMatchContent_def
    by (cases "close env") (simp_all add: step_defs)
  with f show ?thesis by blast
qed

subsection \<open>The comparison step\<close>

lemmas demo_defs =
  demo_env_def demo_globals_def toy_decode_def toy_encode_def toy_resolve_def
  red_2x2_def red_2x1_def red_1x2_def one_blue_2x2_def golden_at_def start_def
  pixel_diff_def differing_pixels_def pixel_def screenshotBrowserWidth_def

lemmas script_defs =
  run_def main_def capture_def renderKitchenSinkOnServer_def
  updateBrowserViewportToMatchContent_def approve_def compare_screenshots_def report_def
  compared_def

lemma compare_trace:
  assumes "decode env buf = Inr current"
    and "files w goldenPath = Some goldenBytes"
    and "decode env goldenBytes = Inr golden"
  shows "trace (snd (compare_screenshots env goldenPath buf w)) = trace w @
           [Decode buf, ReadFile goldenPath, Decode goldenBytes,
            Pixelmatch (data golden) (data current) (replicate (length (data current)) 0)
              (width current) (height current)]"
  using assms unfolding compare_screenshots_def
  by (simp add: step_defs split: sum.splits prod.splits)

text \<open>
  Claim C1 as stated fails. The golden file decodes to an image 1 wide and 2 high, the
  screenshot to an image 2 wide and 1 high. The run still calls \<^verbatim>\<open>pixelmatch\<close>, with the
  width and height of the screenshot, and since the pixel data agree it reports a match
  and ends normally: \<^verbatim>\<open>main\<close> has no comparison of dimensions.
\<close>

theorem dimension_mismatch_counterexample:
  "decode (demo_env red_2x1) red_1x2 = Inr \<lparr>width = 1, height = 2, data = drop 2 red_1x2\<rparr>
   \<and> decode (demo_env red_2x1) red_2x1 = Inr \<lparr>width = 2, height = 1, data = drop 2 red_2x1\<rparr>
   \<and> run demo_globals (demo_env red_2x1) ''/g.png'' False (start (golden_at ''/g.png'' red_1x2)) =
       (Normal (),
        \<lparr>trace = [ImportPrerender, Launch ''/runfiles/chrome'' True, NewPage,
                  Goto ''file:///out/index.html'', Evaluate (800, 600), SetViewport 1920 2400,
                  Screenshot (1920, 2400), Close,
                  Decode red_2x1, ReadFile ''/g.png'', Decode red_1x2,
                  Pixelmatch (drop 2 red_1x2) (drop 2 red_2x1) [0, 0, 0, 0, 0, 0, 0, 0] 2 1,
                  ConsoleError [Str ''diff perc'', Quot 0 2],
                  ConsoleInfo [Str ''Screenshot golden matches.'']],
         files = golden_at ''/g.png'' red_1x2\<rparr>)"
  by (simp add: script_defs step_defs demo_defs upt_rec)

text \<open>
  Claim C1, amended. \<^verbatim>\<open>main\<close> never compares the dimensions of the two images and has no
  dimension-mismatch outcome. In verify mode, once the capture has succeeded and both
  images decode, \<^verbatim>\<open>pixelmatch\<close> is invoked right after the two decodes, on the golden data,
  the screenshot data, a zero-filled buffer of the screenshot's data length, and the
  screenshot's width and height, whether or not the golden has the same dimensions.
\<close>

theorem pixelmatch_invoked_without_dimension_check:
  assumes "capture g env (start fs) = (Normal buf, w1)"
    and "decode env buf = Inr current"
    and "fs goldenPath = Some goldenBytes"
    and "decode env goldenBytes = Inr golden"
  shows "\<exists>rest. trace (snd (run g env goldenPath False (start fs))) =
           trace w1 @
           [Decode buf, ReadFile goldenPath, Decode goldenBytes,
            Pixelmatch (data golden) (data current) (replicate (length (data current)) 0)
              (width current) (height current)] @ rest"
proof -
  let ?h = "\<lambda>e. bind (console_error [Thrown e]) (\<lambda>_. process_exit 1)"
  let ?cmp = "compare_screenshots env goldenPath buf"
  from capture_NormalD [OF assms(1)] have fs: "files w1 = fs"
    by (auto simp add: start_def)
  have run: "run g env goldenPath False (start fs) = catch (bind ?cmp (report g env)) ?h w1"
    using assms(1) by (simp add: run_def main_def catch_def bind_def)
  have c: "trace (snd (?cmp w1)) = trace w1 @
           [Decode buf, ReadFile goldenPath, Decode goldenBytes,
            Pixelmatch (data golden) (data current) (replicate (length (data current)) 0)
              (width current) (height current)]"
    using assms fs by (simp add: compare_trace)
  obtain evs1 where 1: "trace (snd (bind ?cmp (report g env) w1)) = trace (snd (?cmp w1)) @ evs1"
    using bind_extends [of _ _ "report g env" ?cmp w1] only_report by blast
  obtain evs2 where 2: "trace (snd (catch (bind ?cmp (report g env)) ?h w1)) =
      trace (snd (bind ?cmp (report g env) w1)) @ evs2"
    using catch_extends [of _ _ ?h "bind ?cmp (report g env)" w1] only_handler by blast
  show ?thesis using run c 1 2 by simp
qed

text \<open>
  The amended statement on a run with a 2 by 2 golden and a 2 by 1 screenshot, where the
  primitive throws.
\<close>

theorem pixelmatch_invoked_without_dimension_check_witness:
  "\<exists>rest. trace (snd (run demo_globals (demo_env red_2x1) ''/g.png'' False
                         (start (golden_at ''/g.png'' red_2x2)))) =
     [ImportPrerender, Launch ''/runfiles/chrome'' True, NewPage,
      Goto ''file:///out/index.html'', Evaluate (800, 600), SetViewport 1920 2400,
      Screenshot (1920, 2400), Close] @
     [Decode red_2x1, ReadFile ''/g.png'', Decode red_2x2,
      Pixelmatch (drop 2 red_2x2) (drop 2 red_2x1) [0, 0, 0, 0, 0, 0, 0, 0] 2 1] @ rest"
proof -
  let ?w1 = "\<lparr>trace = [ImportPrerender, Launch ''/runfiles/chrome'' True, NewPage,
      Goto ''file:///out/index.html'', Evaluate (800, 600), SetViewport 1920 2400,
      Screenshot (1920, 2400), Close], files = golden_at ''/g.png'' red_2x2\<rparr>"
  have 1: "capture demo_globals (demo_env red_2x1) (start (golden_at ''/g.png'' red_2x2))
             = (Normal red_2x1, ?w1)"
    by (simp add: script_defs step_defs demo_defs)
  have 2: "decode (demo_env red_2x1) red_2x1
             = Inr \<lparr>width = 2, height = 1, data = drop 2 red_2x1\<rparr>"
    by (simp add: demo_defs)
  have 3: "golden_at ''/g.png'' red_2x2 ''/g.png'' = Some red_2x2"
    by (simp add: golden_at_def)
  have 4: "decode (demo_env red_2x1) red_2x2
             = Inr \<lparr>width = 2, height = 2, data = drop 2 red_2x2\<rparr>"
    by (simp add: demo_defs)
  show ?thesis
    using pixelmatch_invoked_without_dimension_check [OF 1 2 3 4]
    by (simp add: red_2x1_def)
qed

subsection \<open>Closing the browser\<close>

text \<open>
  Claim C2 as stated fails. When \<^verbatim>\<open>page.goto\<close> throws, the exception leaves \<^verbatim>\<open>main\<close>
  before \<^verbatim>\<open>browser.close()\<close> is reached: the run logs the error and exits with code 1, and
  \<open>Close\<close> is not in its trace.
\<close>

theorem close_on_navigation_failure_counterexample:
  "goto ((demo_env red_2x2)\<lparr>goto := \<lambda>_. Inl NavigationError\<rparr>) ''file:///out/index.html''
     = Inl NavigationError
   \<and> run demo_globals ((demo_env red_2x2)\<lparr>goto := \<lambda>_. Inl NavigationError\<rparr>) ''/g.png'' False
       (start (golden_at ''/g.png'' red_2x2))
     = (Exit 1,
        \<lparr>trace = [ImportPrerender, Launch ''/runfiles/chrome'' True, NewPage,
                  Goto ''file:///out/index.html'', ConsoleError [Thrown NavigationError],
                  ProcessExit 1],
         files = golden_at ''/g.png'' red_2x2\<rparr>)
   \<and> count_list (trace (snd (run demo_globals
         ((demo_env red_2x2)\<lparr>goto := \<lambda>_. Inl NavigationError\<rparr>) ''/g.png'' False
         (start (golden_at ''/g.png'' red_2x2))))) Close = 0"
  by (simp add: script_defs step_defs demo_defs)

text \<open>
  Claim C2, amended. \<^verbatim>\<open>browser.close()\<close> is invoked exactly once on the runs on which every
  call awaited before it returns (the prerender import, the runfiles lookup, launch,
  newPage, goto, the height measurement, setViewport and screenshot), and then it is the
  last call of the capture, before any file access, comparison, console output or exit.
  On a run where one of those calls throws it is not invoked at all.
\<close>

theorem close_invoked_once_iff_reached:
  "count_list (trace (snd (run g env goldenPath approveGolden (start fs)))) Close
     = (if reaches_close g env then 1 else 0)
   \<and> (reaches_close g env \<longrightarrow>
        (\<exists>outputPath executablePath h rest.
           trace (snd (run g env goldenPath approveGolden (start fs))) =
             [ImportPrerender, Launch executablePath True, NewPage,
              Goto (''file://'' @ outputPath), Evaluate (default_viewport env),
              SetViewport screenshotBrowserWidth h,
              Screenshot (screenshotBrowserWidth, h), Close] @ rest
           \<and> list_all (\<lambda>e. e \<noteq> Close) rest))"
proof -
  let ?rest = "\<lambda>buf. if approveGolden then approve env goldenPath buf
                 else bind (compare_screenshots env goldenPath buf) (report g env)"
  let ?h = "\<lambda>e. bind (console_error [Thrown e]) (\<lambda>_. process_exit 1)"
  let ?w = "start fs"
  have count: "count_list (trace (snd (run g env goldenPath approveGolden ?w))) Close
     = (if reaches_close g env then 1 else 0)"
    by (simp add: run_count_close start_def)
  have run: "run g env goldenPath approveGolden = catch (bind (capture g env) ?rest) ?h"
    by (simp add: run_def main_def)
  obtain evs1 where 1: "trace (snd (bind (capture g env) ?rest ?w)) =
      trace (snd (capture g env ?w)) @ evs1" "list_all (\<lambda>e. e \<noteq> Close \<and> True) evs1"
    using bind_extends [of "\<lambda>e. e \<noteq> Close \<and> True" "\<lambda>_. False" ?rest "capture g env" ?w]
      only_after_capture by blast
  obtain evs2 where 2: "trace (snd (catch (bind (capture g env) ?rest) ?h ?w)) =
      trace (snd (bind (capture g env) ?rest ?w)) @ evs2" "list_all (\<lambda>e. e \<noteq> Close \<and> True) evs2"
    using catch_extends [of "\<lambda>e. e \<noteq> Close \<and> True" "\<lambda>_. False" ?h "bind (capture g env) ?rest" ?w]
      only_handler_no_close by blast
  have tr: "trace (snd (run g env goldenPath approveGolden ?w)) =
      trace (snd (capture g env ?w)) @ (evs1 @ evs2)"
    using 1 2 run by simp
  have no: "list_all (\<lambda>e. e \<noteq> Close) (evs1 @ evs2)"
    using 1 2 by simp
  show ?thesis
  proof (intro conjI impI)
    show "count_list (trace (snd (run g env goldenPath approveGolden ?w))) Close
       = (if reaches_close g env then 1 else 0)" by (rule count)
  next
    assume "reaches_close g env"
    from capture_reaches [OF this, of ?w] tr no
    show "\<exists>outputPath executablePath h rest.
           trace (snd (run g env goldenPath approveGolden (start fs))) =
             [ImportPrerender, Launch executablePath True, NewPage,
              Goto (''file://'' @ outputPath), Evaluate (default_viewport env),
              SetViewport screenshotBrowserWidth h,
              Screenshot (screenshotBrowserWidth, h), Close] @ rest
           \<and> list_all (\<lambda>e. e \<noteq> Close) rest"
      by (auto simp add: start_def)
  qed
qed

text \<open>
  Two runs: one where every call returns, one where the screenshot call throws.
\<close>

theorem close_invoked_once_iff_reached_witness:
  "reaches_close demo_globals (demo_env red_2x2)
   \<and> count_list (trace (snd (run demo_globals (demo_env red_2x2) ''/g.png'' True
         (start (golden_at ''/g.png'' red_2x2))))) Close = 1
   \<and> \<not> reaches_close demo_globals ((demo_env red_2x2)\<lparr>screenshot := \<lambda>_. Inl CaptureError\<rparr>)
   \<and> count_list (trace (snd (run demo_globals
         ((demo_env red_2x2)\<lparr>screenshot := \<lambda>_. Inl CaptureError\<rparr>) ''/g.png'' False
         (start (golden_at ''/g.png'' red_2x2))))) Close = 0"
proof -
  have 1: "reaches_close demo_globals (demo_env red_2x2)"
    by (simp add: reaches_close_def demo_defs)
  have 2: "\<not> reaches_close demo_globals
             ((demo_env red_2x2)\<lparr>screenshot := \<lambda>_. Inl CaptureError\<rparr>)"
    by (simp add: reaches_close_def demo_defs)
  show ?thesis
    using 1 2
      close_invoked_once_iff_reached [of demo_globals "demo_env red_2x2" "''/g.png''" True
        "golden_at ''/g.png'' red_2x2"]
      close_invoked_once_iff_reached [of demo_globals
        "(demo_env red_2x2)\<lparr>screenshot := \<lambda>_. Inl CaptureError\<rparr>" "''/g.png''" False
        "golden_at ''/g.png'' red_2x2"]
    by simp
qed

subsection \<open>Fitting the viewport\<close>

text \<open>
  Claim C5: the height of the content is to be measured with the page already at the
  fixed width, and the viewport then set to that width and the measured height. The
  documentation of \<^verbatim>\<open>updateBrowserViewportToMatchContent\<close> asks for the same (a viewport that
  matches the body so that everything is visible without scrollbars, at a large fixed
  width), but the code reads \<^verbatim>\<open>document.body.scrollHeight\<close> before its only call of
  \<^verbatim>\<open>setViewport\<close>. On the concrete browser the page is 800 wide when the height is read,
  the viewport becomes 1920 by 2400, and the document is 1000 high at width 1920: the
  measurement is not taken at the fixed width and the captured viewport does not fit the
  content.
\<close>

theorem viewport_height_measured_before_width_is_set:
  "default_viewport (demo_env red_2x2) = (800, 600)
   \<and> capture demo_globals (demo_env red_2x2) (start Map.empty) =
     (Normal red_2x2,
      \<lparr>trace = [ImportPrerender, Launch ''/runfiles/chrome'' True, NewPage,
                Goto ''file:///out/index.html'', Evaluate (800, 600), SetViewport 1920 2400,
                Screenshot (1920, 2400), Close],
       files = Map.empty\<rparr>)
   \<and> body_scrollHeight (demo_env red_2x2) (800, 600) = Inr 2400
   \<and> body_scrollHeight (demo_env red_2x2) (screenshotBrowserWidth, 600) = Inr 1000
   \<and> body_scrollHeight (demo_env red_2x2) (screenshotBrowserWidth, 2400) = Inr 1000"
  by (simp add: script_defs step_defs demo_defs)

subsection \<open>Pass, fail and approve\<close>

lemma capture_files:
  assumes "capture g env w = (Normal buf, w1)"
  shows "files w1 = files w"
  using capture_NormalD [OF assms] by auto

lemma only_compared:
  "only (\<lambda>e. written_path e = None) (\<lambda>_. True) (compared g env gp)"
proof -
  have 1: "only (\<lambda>e. written_path e = None) (\<lambda>_. True) (capture g env)"
    by (rule only_mono [OF only_capture]) simp_all
  have 2: "only (\<lambda>e. written_path e = None) (\<lambda>_. True) (compare_screenshots env gp buf)" for buf
    by (rule only_mono [OF only_compare_screenshots]) simp_all
  show ?thesis unfolding compared_def using 1 2 by (rule only_bind)
qed

lemma compared_files:
  assumes "compared g env gp w = (r, w1)"
  shows "files w1 = files w"
proof
  fix p
  have "only (\<lambda>e. written_path e = None) (\<lambda>_. True) (compared g env gp)"
    by (rule only_compared)
  then have "files (snd (compared g env gp w)) p = files w p"
    by (rule only_filesD) simp
  then show "files w1 p = files w p"
    using assms by simp
qed

lemma run_after_compared:
  assumes "compared g env gp w = (Normal r, w1)"
  shows "run g env gp False w =
           catch (report g env r) (\<lambda>e. bind (console_error [Thrown e]) (\<lambda>_. process_exit 1)) w1"
  using assms by (simp add: run_def main_verify catch_def bind_def)

lemma run_compared_Throw:
  assumes "compared g env gp w = (Throw e, w1)"
  shows "run g env gp False w = bind (console_error [Thrown e]) (\<lambda>_. process_exit 1) w1"
  using assms by (simp add: run_def main_verify catch_def bind_def)

lemma run_compared_Exit:
  assumes "compared g env gp w = (Exit n, w1)"
  shows "run g env gp False w = (Exit n, w1)"
  using assms by (simp add: run_def main_verify catch_def bind_def)

lemma report_trace_head:
  "\<exists>rest. trace (snd (report g env (c, d, n) w)) =
      trace w @ [ConsoleError [Str ''diff perc'', Quot n (width c * height c)]] @ rest"
  by (simp add: report_def step_defs split: sum.splits)

text \<open>
  Claim C3. When the comparison reports \<open>numDiffPixels\<close>, the exit code of the run is 0 if
  the count is zero and 1 otherwise, whatever the width and height are and whatever the
  encoder and the file system do afterwards; the ratio of the count to the number of
  pixels is only written to the console.
\<close>

theorem exit_code_decided_by_count:
  assumes "compared g env goldenPath (start fs) = (Normal (current, diffImageData, numDiffPixels), w1)"
  shows "exit_code (fst (run g env goldenPath False (start fs)))
           = (if numDiffPixels = 0 then 0 else 1)
       \<and> (\<exists>rest. trace (snd (run g env goldenPath False (start fs))) =
             trace w1 @ [ConsoleError [Str ''diff perc'',
                           Quot numDiffPixels (width current * height current)]] @ rest)"
proof -
  let ?h = "\<lambda>e. bind (console_error [Thrown e]) (\<lambda>_. process_exit 1)"
  let ?r = "report g env (current, diffImageData, numDiffPixels)"
  have run: "run g env goldenPath False (start fs) = catch ?r ?h w1"
    by (rule run_after_compared [OF assms])
  have "exit_code (fst (catch ?r ?h w1)) = (if numDiffPixels = 0 then 0 else 1)"
    by (simp only: exit_code_handler report_exit)
  moreover obtain rest1 where 1: "trace (snd (?r w1)) =
      trace w1 @ [ConsoleError [Str ''diff perc'',
                    Quot numDiffPixels (width current * height current)]] @ rest1"
    using report_trace_head by blast
  obtain evs where 2: "trace (snd (catch ?r ?h w1)) = trace (snd (?r w1)) @ evs"
    using catch_extends [of _ _ ?h ?r w1] only_handler by blast
  have "\<exists>rest. trace (snd (catch ?r ?h w1)) =
             trace w1 @ [ConsoleError [Str ''diff perc'',
                           Quot numDiffPixels (width current * height current)]] @ rest"
    using 1 2 by simp
  ultimately show ?thesis using run by simp
qed

lemma only_run_approve:
  "only (\<lambda>e. \<not> is_comparison e \<and> (written_path e = None \<or> written_path e = Some gp))
     (\<lambda>p. p \<noteq> gp) (run g env gp True)"
proof -
  let ?P = "\<lambda>e. \<not> is_comparison e \<and> (written_path e = None \<or> written_path e = Some gp)"
  let ?F = "\<lambda>p. p \<noteq> gp"
  have 1: "only ?P ?F (capture g env)"
    by (rule only_mono [OF only_capture]) simp_all
  have 2: "only ?P ?F (approve env gp buf)" for buf
    by (rule only_mono [OF only_approve]) simp_all
  have 3: "only ?P ?F (bind (console_error [Thrown e]) (\<lambda>_. process_exit 1))" for e
    by (rule only_mono [OF only_handler]) simp_all
  have "only ?P ?F (catch (bind (capture g env) (approve env gp))
          (\<lambda>e. bind (console_error [Thrown e]) (\<lambda>_. process_exit 1)))"
    by (rule only_catch [OF only_bind [OF 1 2] 3])
  then show ?thesis by (simp add: run_def main_approve)
qed

text \<open>
  Claim C4. In approve mode, after a successful capture and with a writable golden path,
  the run replaces the golden file by the captured buffer and changes no other file,
  prints the confirmation and ends with exit code 0; its trace has no decode, no read of
  the golden, no call of \<^verbatim>\<open>pixelmatch\<close> and no encode, and its only write is the golden.
\<close>

theorem approve_overwrites_golden:
  "list_all (\<lambda>e. \<not> is_comparison e \<and> (written_path e = None \<or> written_path e = Some goldenPath))
     (trace (snd (run g env goldenPath True (start fs))))
   \<and> (\<forall>p. p \<noteq> goldenPath \<longrightarrow> files (snd (run g env goldenPath True (start fs))) p = fs p)
   \<and> (capture g env (start fs) = (Normal buf, w1) \<and> writable env goldenPath \<longrightarrow>
        run g env goldenPath True (start fs) =
           (Normal (),
            w1\<lparr>trace := trace w1 @ [WriteFile goldenPath buf,
                                     ConsoleInfo [Str ''Golden screenshot updated.'']],
               files := fs(goldenPath \<mapsto> buf)\<rparr>)
        \<and> exit_code (fst (run g env goldenPath True (start fs))) = 0
        \<and> list_all (\<lambda>e. written_path e = None) (trace w1))"
proof -
  let ?run = "run g env goldenPath True (start fs)"
  obtain evs where evs: "trace (snd ?run) = trace (start fs) @ evs"
    and P: "list_all (\<lambda>e. \<not> is_comparison e
              \<and> (written_path e = None \<or> written_path e = Some goldenPath)) evs"
    using only_traceD [OF only_run_approve] by blast
  have a: "list_all (\<lambda>e. \<not> is_comparison e
              \<and> (written_path e = None \<or> written_path e = Some goldenPath)) (trace (snd ?run))"
    using evs P by (simp add: start_def)
  have b: "\<forall>p. p \<noteq> goldenPath \<longrightarrow> files (snd ?run) p = fs p"
  proof (intro allI impI)
    fix p :: path
    assume "p \<noteq> goldenPath"
    then have "files (snd ?run) p = files (start fs) p"
      by (intro only_filesD [OF only_run_approve])
    then show "files (snd ?run) p = fs p" by (simp add: start_def)
  qed
  have c: "capture g env (start fs) = (Normal buf, w1) \<and> writable env goldenPath \<longrightarrow>
        ?run =
           (Normal (),
            w1\<lparr>trace := trace w1 @ [WriteFile goldenPath buf,
                                     ConsoleInfo [Str ''Golden screenshot updated.'']],
               files := fs(goldenPath \<mapsto> buf)\<rparr>)
        \<and> exit_code (fst ?run) = 0
        \<and> list_all (\<lambda>e. written_path e = None) (trace w1)"
  proof
    assume h: "capture g env (start fs) = (Normal buf, w1) \<and> writable env goldenPath"
    then have cap: "capture g env (start fs) = (Normal buf, w1)" and wr: "writable env goldenPath"
      by simp_all
    have fs: "files w1 = fs"
      using capture_files [OF cap] by (simp add: start_def)
    have run: "?run =
           (Normal (),
            w1\<lparr>trace := trace w1 @ [WriteFile goldenPath buf,
                                     ConsoleInfo [Str ''Golden screenshot updated.'']],
               files := fs(goldenPath \<mapsto> buf)\<rparr>)"
      using cap wr fs by (simp add: run_def main_def approve_def step_defs)
    obtain evs' where "trace w1 = trace (start fs) @ evs'"
      "list_all (\<lambda>e. \<not> is_comparison e \<and> written_path e = None) evs'"
      using only_traceD [OF only_capture, of g env "start fs"] cap by auto
    then have tr: "list_all (\<lambda>e. written_path e = None) (trace w1)"
      by (simp add: start_def list_all_iff)
    show "?run =
           (Normal (),
            w1\<lparr>trace := trace w1 @ [WriteFile goldenPath buf,
                                     ConsoleInfo [Str ''Golden screenshot updated.'']],
               files := fs(goldenPath \<mapsto> buf)\<rparr>)
        \<and> exit_code (fst ?run) = 0
        \<and> list_all (\<lambda>e. written_path e = None) (trace w1)"
      using run tr by (simp add: exit_code_def)
  qed
  show ?thesis using a b c by blast
qed

text \<open>
  An approve run that replaces a red golden by a screenshot with a blue pixel.
\<close>

theorem approve_overwrites_golden_witness:
  "run demo_globals (demo_env one_blue_2x2) ''/g.png'' True (start (golden_at ''/g.png'' red_2x2)) =
     (Normal (),
      \<lparr>trace = [ImportPrerender, Launch ''/runfiles/chrome'' True, NewPage,
                Goto ''file:///out/index.html'', Evaluate (800, 600), SetViewport 1920 2400,
                Screenshot (1920, 2400), Close, WriteFile ''/g.png'' one_blue_2x2,
                ConsoleInfo [Str ''Golden screenshot updated.'']],
       files = golden_at ''/g.png'' one_blue_2x2\<rparr>)
   \<and> exit_code (fst (run demo_globals (demo_env one_blue_2x2) ''/g.png'' True
                       (start (golden_at ''/g.png'' red_2x2)))) = 0"
proof -
  let ?w1 = "\<lparr>trace = [ImportPrerender, Launch ''/runfiles/chrome'' True, NewPage,
      Goto ''file:///out/index.html'', Evaluate (800, 600), SetViewport 1920 2400,
      Screenshot (1920, 2400), Close], files = golden_at ''/g.png'' red_2x2\<rparr>"
  have 1: "capture demo_globals (demo_env one_blue_2x2) (start (golden_at ''/g.png'' red_2x2))
             = (Normal one_blue_2x2, ?w1)"
    by (simp add: script_defs step_defs demo_defs)
  have 2: "writable (demo_env one_blue_2x2) ''/g.png''"
    by (simp add: demo_env_def)
  show ?thesis
    using approve_overwrites_golden [of "''/g.png''" demo_globals "demo_env one_blue_2x2"
        "golden_at ''/g.png'' red_2x2" one_blue_2x2 ?w1] 1 2
    by (simp add: golden_at_def exit_code_def)
qed

text \<open>
  Claim C6. In verify mode, when the comparison reports a nonzero count, the encoder
  returns and the diff path is writable, the encoded diff image is written to
  \<open>screenshotDiffPath\<close>, three messages are printed (the count in decimal, the command
  that accepts the new golden, the location of the diff file), and then the process
  exits with code 1.
\<close>

theorem mismatch_writes_diff_and_fails:
  assumes "compared g env goldenPath (start fs) = (Normal (current, diffImageData, numDiffPixels), w1)"
    and "numDiffPixels \<noteq> 0"
    and "encode env \<lparr>width = width current, height = height current, data = diffImageData\<rparr>
           = Inr encoded"
    and "writable env (screenshotDiffPath g)"
  shows "run g env goldenPath False (start fs) =
           (Exit 1,
            w1\<lparr>trace := trace w1 @
                 [ConsoleError [Str ''diff perc'',
                    Quot numDiffPixels (width current * height current)],
                  Encode \<lparr>width = width current, height = height current,
                          data = diffImageData\<rparr>,
                  WriteFile (screenshotDiffPath g) encoded,
                  ConsoleError [Str (''Expected golden image to match. ''
                                     @ decimal numDiffPixels @ '' pixels do not match.'')],
                  ConsoleError [Str (''Command to update the golden: yarn bazel run ''
                                     @ js_template (process_env g ''TEST_TARGET'')
                                     @ ''.accept'')],
                  ConsoleError [Str (''See diff: file://''
                                     @ replace_backslashes (screenshotDiffPath g))],
                  ProcessExit 1],
               files := fs(screenshotDiffPath g \<mapsto> encoded)\<rparr>)
       \<and> exit_code (fst (run g env goldenPath False (start fs))) = 1
       \<and> sublist (decimal numDiffPixels)
           (''Expected golden image to match. '' @ decimal numDiffPixels
            @ '' pixels do not match.'')"
proof -
  have fs: "files w1 = fs"
    using compared_files [OF assms(1)] by (simp add: start_def)
  have "run g env goldenPath False (start fs) =
          catch (report g env (current, diffImageData, numDiffPixels))
            (\<lambda>e. bind (console_error [Thrown e]) (\<lambda>_. process_exit 1)) w1"
    by (rule run_after_compared [OF assms(1)])
  then have run: "run g env goldenPath False (start fs) =
           (Exit 1,
            w1\<lparr>trace := trace w1 @
                 [ConsoleError [Str ''diff perc'',
                    Quot numDiffPixels (width current * height current)],
                  Encode \<lparr>width = width current, height = height current,
                          data = diffImageData\<rparr>,
                  WriteFile (screenshotDiffPath g) encoded,
                  ConsoleError [Str (''Expected golden image to match. ''
                                     @ decimal numDiffPixels @ '' pixels do not match.'')],
                  ConsoleError [Str (''Command to update the golden: yarn bazel run ''
                                     @ js_template (process_env g ''TEST_TARGET'')
                                     @ ''.accept'')],
                  ConsoleError [Str (''See diff: file://''
                                     @ replace_backslashes (screenshotDiffPath g))],
                  ProcessExit 1],
               files := fs(screenshotDiffPath g \<mapsto> encoded)\<rparr>)"
    using report_nonzero [OF assms(2) assms(3) assms(4), of w1] fs
    by (simp add: catch_def)
  have sub: "sublist (decimal numDiffPixels)
           (''Expected golden image to match. '' @ decimal numDiffPixels
            @ '' pixels do not match.'')"
    by (rule sublist_appendI)
  show ?thesis
    using sub by (simp only: run exit_code_def fst_conv completion.case simp_thms)
qed

text \<open>
  A verify run of a screenshot with one blue pixel against a red golden.
\<close>

theorem mismatch_writes_diff_and_fails_witness:
  "run demo_globals (demo_env one_blue_2x2) ''/g.png'' False (start (golden_at ''/g.png'' red_2x2)) =
     (Exit 1,
      \<lparr>trace = [ImportPrerender, Launch ''/runfiles/chrome'' True, NewPage,
                Goto ''file:///out/index.html'', Evaluate (800, 600), SetViewport 1920 2400,
                Screenshot (1920, 2400), Close,
                Decode one_blue_2x2, ReadFile ''/g.png'', Decode red_2x2,
                Pixelmatch (drop 2 red_2x2) (drop 2 one_blue_2x2)
                  [0, 0, 0, 0, 0, 0, 0, 0, 0, 0, 0, 0, 0, 0, 0, 0] 2 2,
                ConsoleError [Str ''diff perc'', Quot 1 4],
                Encode \<lparr>width = 2, height = 2,
                        data = [0, 0, 0, 0, 0, 0, 0, 0, 0, 0, 0, 0, 0, 0, 0, 0]\<rparr>,
                WriteFile ''/out/image-diff.png''
                  [2, 2, 0, 0, 0, 0, 0, 0, 0, 0, 0, 0, 0, 0, 0, 0, 0, 0],
                ConsoleError [Str ''Expected golden image to match. 1 pixels do not match.''],
                ConsoleError [Str ''Command to update the golden: yarn bazel run //app:test.accept''],
                ConsoleError [Str ''See diff: file:///out/image-diff.png''],
                ProcessExit 1],
       files = (golden_at ''/g.png'' red_2x2)
                 (''/out/image-diff.png'' \<mapsto>
                    [2, 2, 0, 0, 0, 0, 0, 0, 0, 0, 0, 0, 0, 0, 0, 0, 0, 0])\<rparr>)
   \<and> exit_code (fst (run demo_globals (demo_env one_blue_2x2) ''/g.png'' False
                       (start (golden_at ''/g.png'' red_2x2)))) = 1"
proof -
  let ?w1 = "\<lparr>trace = [ImportPrerender, Launch ''/runfiles/chrome'' True, NewPage,
      Goto ''file:///out/index.html'', Evaluate (800, 600), SetViewport 1920 2400,
      Screenshot (1920, 2400), Close,
      Decode one_blue_2x2, ReadFile ''/g.png'', Decode red_2x2,
      Pixelmatch (drop 2 red_2x2) (drop 2 one_blue_2x2)
        [0, 0, 0, 0, 0, 0, 0, 0, 0, 0, 0, 0, 0, 0, 0, 0] 2 2],
      files = golden_at ''/g.png'' red_2x2\<rparr>"
  have 1: "compared demo_globals (demo_env one_blue_2x2) ''/g.png''
             (start (golden_at ''/g.png'' red_2x2))
           = (Normal (\<lparr>width = 2, height = 2, data = drop 2 one_blue_2x2\<rparr>,
                      [0, 0, 0, 0, 0, 0, 0, 0, 0, 0, 0, 0, 0, 0, 0, 0], 1), ?w1)"
    by (simp add: script_defs step_defs demo_defs upt_rec)
  have 2: "(1::nat) \<noteq> 0" by simp
  have 3: "encode (demo_env one_blue_2x2)
             \<lparr>width = width \<lparr>width = 2, height = 2, data = drop 2 one_blue_2x2\<rparr>,
              height = height \<lparr>width = 2, height = 2, data = drop 2 one_blue_2x2\<rparr>,
              data = [0, 0, 0, 0, 0, 0, 0, 0, 0, 0, 0, 0, 0, 0, 0, 0]\<rparr>
           = Inr [2, 2, 0, 0, 0, 0, 0, 0, 0, 0, 0, 0, 0, 0, 0, 0, 0, 0]"
    by (simp add: demo_defs)
  have 4: "writable (demo_env one_blue_2x2) (screenshotDiffPath demo_globals)"
    by (simp add: demo_env_def)
  show ?thesis
    using mismatch_writes_diff_and_fails [OF 1 2 3 4]
    by (simp add: demo_globals_def js_template_def replace_backslashes_def decimal.simps
        digit_def exit_code_def)
qed

text \<open>
  Two runs against a red golden: an identical screenshot, and one with a blue pixel.
\<close>

theorem exit_code_decided_by_count_witness:
  "exit_code (fst (run demo_globals (demo_env red_2x2) ''/g.png'' False
                     (start (golden_at ''/g.png'' red_2x2)))) = 0
   \<and> exit_code (fst (run demo_globals (demo_env one_blue_2x2) ''/g.png'' False
                     (start (golden_at ''/g.png'' red_2x2)))) = 1"
proof -
  let ?cap = "[ImportPrerender, Launch ''/runfiles/chrome'' True, NewPage,
      Goto ''file:///out/index.html'', Evaluate (800, 600), SetViewport 1920 2400,
      Screenshot (1920, 2400), Close]"
  let ?zeros = "[0, 0, 0, 0, 0, 0, 0, 0, 0, 0, 0, 0, 0, 0, 0, 0] :: buffer"
  have 1: "compared demo_globals (demo_env red_2x2) ''/g.png''
             (start (golden_at ''/g.png'' red_2x2))
           = (Normal (\<lparr>width = 2, height = 2, data = drop 2 red_2x2\<rparr>, ?zeros, 0),
              \<lparr>trace = ?cap @ [Decode red_2x2, ReadFile ''/g.png'', Decode red_2x2,
                  Pixelmatch (drop 2 red_2x2) (drop 2 red_2x2) ?zeros 2 2],
               files = golden_at ''/g.png'' red_2x2\<rparr>)"
    by (simp add: script_defs step_defs demo_defs upt_rec)
  have 2: "compared demo_globals (demo_env one_blue_2x2) ''/g.png''
             (start (golden_at ''/g.png'' red_2x2))
           = (Normal (\<lparr>width = 2, height = 2, data = drop 2 one_blue_2x2\<rparr>, ?zeros, 1),
              \<lparr>trace = ?cap @ [Decode one_blue_2x2, ReadFile ''/g.png'', Decode red_2x2,
                  Pixelmatch (drop 2 red_2x2) (drop 2 one_blue_2x2) ?zeros 2 2],
               files = golden_at ''/g.png'' red_2x2\<rparr>)"
    by (simp add: script_defs step_defs demo_defs upt_rec)
  show ?thesis
    using exit_code_decided_by_count [OF 1] exit_code_decided_by_count [OF 2]
    by simp
qed

subsection \<open>Writes in verify mode\<close>

lemma only_run_verify:
  "only (\<lambda>e. written_path e = None \<or> written_path e = Some (screenshotDiffPath g))
     (\<lambda>p. p \<noteq> screenshotDiffPath g) (run g env gp False)"
proof -
  let ?P = "\<lambda>e. written_path e = None \<or> written_path e = Some (screenshotDiffPath g)"
  let ?F = "\<lambda>p. p \<noteq> screenshotDiffPath g"
  have 1: "only ?P ?F (compared g env gp)"
    by (rule only_mono [OF only_compared]) simp_all
  have 2: "only ?P ?F (report g env r)" for r
    by (rule only_mono [OF only_report]) simp_all
  have 3: "only ?P ?F (bind (console_error [Thrown e]) (\<lambda>_. process_exit 1))" for e
    by (rule only_mono [OF only_handler]) simp_all
  have "only ?P ?F (catch (bind (compared g env gp) (report g env))
          (\<lambda>e. bind (console_error [Thrown e]) (\<lambda>_. process_exit 1)))"
    by (rule only_catch [OF only_bind [OF 1 2] 3])
  then show ?thesis by (simp add: run_def main_verify)
qed

lemma no_write_iff:
  "list_all (\<lambda>e. written_path e = None) evs \<longleftrightarrow> (\<forall>p b. WriteFile p b \<notin> set evs)"
proof (induction evs)
  case Nil
  then show ?case by simp
next
  case (Cons e evs)
  then show ?case by (cases e) auto
qed

lemma compared_no_write:
  assumes "compared g env gp (start fs) = (r, w1)"
  shows "list_all (\<lambda>e. written_path e = None) (trace w1)"
  using only_traceD [OF only_compared, of g env gp "start fs"] assms
  by (auto simp add: start_def)

lemma handler_no_write:
  "list_all (\<lambda>e. written_path e = None)
     (trace (snd (bind (console_error [Thrown e]) (\<lambda>_. process_exit 1) w)))
   \<longleftrightarrow> list_all (\<lambda>e. written_path e = None) (trace w)"
  by (simp add: step_defs)

lemma report_write_iff:
  assumes "list_all (\<lambda>e. written_path e = None) (trace w)"
  shows "(\<exists>b. WriteFile (screenshotDiffPath g) b \<in> set (trace (snd
            (catch (report g env (c, d, n))
               (\<lambda>e. bind (console_error [Thrown e]) (\<lambda>_. process_exit 1)) w))))
     \<longleftrightarrow> (n \<noteq> 0 \<and> (\<exists>enc. encode env \<lparr>width = width c, height = height c, data = d\<rparr> = Inr enc))"
proof -
  have nw: "\<And>p b. WriteFile p b \<notin> set (trace w)"
    using assms by (simp add: no_write_iff)
  show ?thesis
  proof (cases "n = 0")
    case True
    then show ?thesis using nw by (simp add: report_def step_defs)
  next
    case False
    show ?thesis
    proof (cases "encode env \<lparr>width = width c, height = height c, data = d\<rparr>")
      case (Inl e)
      then show ?thesis using False nw by (simp add: report_def step_defs)
    next
      case (Inr enc)
      then show ?thesis using False nw
        by (cases "writable env (screenshotDiffPath g)") (simp_all add: report_def step_defs)
    qed
  qed
qed

text \<open>
  Claim C7. In verify mode every write of the run goes to \<open>screenshotDiffPath\<close> and every
  other file is left as it was; so the golden file, when its path is not the diff path,
  is neither written nor changed. The diff file is written exactly when the comparison
  reports a nonzero count (and the encoder has returned the bytes to write).
\<close>

theorem verify_mode_writes_only_the_diff:
  "(\<forall>p b. WriteFile p b \<in> set (trace (snd (run g env goldenPath False (start fs))))
        \<longrightarrow> p = screenshotDiffPath g)
   \<and> (\<forall>p. p \<noteq> screenshotDiffPath g
        \<longrightarrow> files (snd (run g env goldenPath False (start fs))) p = fs p)
   \<and> (goldenPath \<noteq> screenshotDiffPath g
        \<longrightarrow> files (snd (run g env goldenPath False (start fs))) goldenPath = fs goldenPath
          \<and> (\<forall>b. WriteFile goldenPath b
                  \<notin> set (trace (snd (run g env goldenPath False (start fs))))))
   \<and> ((\<exists>b. WriteFile (screenshotDiffPath g) b
              \<in> set (trace (snd (run g env goldenPath False (start fs)))))
        \<longleftrightarrow> (\<exists>current diffImageData numDiffPixels w1 encoded.
               compared g env goldenPath (start fs)
                 = (Normal (current, diffImageData, numDiffPixels), w1)
             \<and> numDiffPixels \<noteq> 0
             \<and> encode env \<lparr>width = width current, height = height current,
                             data = diffImageData\<rparr> = Inr encoded))"
proof -
  let ?run = "run g env goldenPath False (start fs)"
  let ?d = "screenshotDiffPath g"
  let ?h = "\<lambda>e. bind (console_error [Thrown e]) (\<lambda>_. process_exit 1)"
  obtain evs where evs: "trace (snd ?run) = trace (start fs) @ evs"
    and P: "list_all (\<lambda>e. written_path e = None \<or> written_path e = Some ?d) evs"
    using only_traceD [OF only_run_verify] by blast
  have tr: "trace (snd ?run) = evs" using evs by (simp add: start_def)
  have a: "\<forall>p b. WriteFile p b \<in> set (trace (snd ?run)) \<longrightarrow> p = ?d"
  proof (intro allI impI)
    fix p b
    assume "WriteFile p b \<in> set (trace (snd ?run))"
    then have "WriteFile p b \<in> set evs" using tr by simp
    with P have "written_path (WriteFile p b) = None
        \<or> written_path (WriteFile p b) = Some ?d"
      by (auto simp add: list_all_iff)
    then show "p = ?d" by simp
  qed
  have b: "\<forall>p. p \<noteq> ?d \<longrightarrow> files (snd ?run) p = fs p"
  proof (intro allI impI)
    fix p
    assume "p \<noteq> ?d"
    then have "files (snd ?run) p = files (start fs) p"
      by (intro only_filesD [OF only_run_verify])
    then show "files (snd ?run) p = fs p" by (simp add: start_def)
  qed
  have c: "goldenPath \<noteq> ?d \<longrightarrow> files (snd ?run) goldenPath = fs goldenPath
          \<and> (\<forall>b. WriteFile goldenPath b \<notin> set (trace (snd ?run)))"
    using a b by blast
  have d: "(\<exists>b. WriteFile ?d b \<in> set (trace (snd ?run)))
        \<longleftrightarrow> (\<exists>current diffImageData numDiffPixels w1 encoded.
               compared g env goldenPath (start fs)
                 = (Normal (current, diffImageData, numDiffPixels), w1)
             \<and> numDiffPixels \<noteq> 0
             \<and> encode env \<lparr>width = width current, height = height current,
                             data = diffImageData\<rparr> = Inr encoded)"
  proof (cases "compared g env goldenPath (start fs)")
    case (Pair r w1)
    have nw: "list_all (\<lambda>e. written_path e = None) (trace w1)"
      by (rule compared_no_write [OF Pair])
    show ?thesis
    proof (cases r)
      case (Normal v)
      obtain current diffImageData numDiffPixels where v: "v = (current, diffImageData, numDiffPixels)"
        by (cases v) auto
      have cmp: "compared g env goldenPath (start fs)
                   = (Normal (current, diffImageData, numDiffPixels), w1)"
        using Pair Normal v by simp
      have "?run = catch (report g env (current, diffImageData, numDiffPixels)) ?h w1"
        by (rule run_after_compared [OF cmp])
      then have "(\<exists>b. WriteFile ?d b \<in> set (trace (snd ?run)))
          \<longleftrightarrow> (numDiffPixels \<noteq> 0 \<and> (\<exists>enc. encode env \<lparr>width = width current,
                  height = height current, data = diffImageData\<rparr> = Inr enc))"
        using report_write_iff [OF nw] by simp
      then show ?thesis using cmp by auto
    next
      case (Throw e)
      then have "?run = ?h e w1" using Pair by (simp add: run_compared_Throw)
      then have "list_all (\<lambda>e. written_path e = None) (trace (snd ?run))"
        using nw handler_no_write [of e w1] by simp
      then show ?thesis using Pair Throw by (simp add: no_write_iff)
    next
      case (Exit n)
      then have "?run = (Exit n, w1)" using Pair by (simp add: run_compared_Exit)
      then show ?thesis using nw Pair Exit by (simp add: no_write_iff)
    qed
  qed
  show ?thesis using a b c d by blast
qed

text \<open>
  The same mismatching run: the diff file is written, the golden is untouched.
\<close>

theorem verify_mode_writes_only_the_diff_witness:
  "''/g.png'' \<noteq> screenshotDiffPath demo_globals
   \<and> files (snd (run demo_globals (demo_env one_blue_2x2) ''/g.png'' False
                    (start (golden_at ''/g.png'' red_2x2)))) ''/g.png'' = Some red_2x2
   \<and> (\<forall>b. WriteFile ''/g.png'' b
          \<notin> set (trace (snd (run demo_globals (demo_env one_blue_2x2) ''/g.png'' False
                                 (start (golden_at ''/g.png'' red_2x2))))))
   \<and> (\<exists>b. WriteFile (screenshotDiffPath demo_globals) b
          \<in> set (trace (snd (run demo_globals (demo_env one_blue_2x2) ''/g.png'' False
                                 (start (golden_at ''/g.png'' red_2x2))))))"
proof -
  let ?cap = "[ImportPrerender, Launch ''/runfiles/chrome'' True, NewPage,
      Goto ''file:///out/index.html'', Evaluate (800, 600), SetViewport 1920 2400,
      Screenshot (1920, 2400), Close]"
  let ?zeros = "[0, 0, 0, 0, 0, 0, 0, 0, 0, 0, 0, 0, 0, 0, 0, 0] :: buffer"
  let ?cur = "\<lparr>width = 2, height = 2, data = drop 2 one_blue_2x2\<rparr>"
  have ne: "''/g.png'' \<noteq> screenshotDiffPath demo_globals"
    by (simp add: demo_globals_def)
  have cmp: "compared demo_globals (demo_env one_blue_2x2) ''/g.png''
             (start (golden_at ''/g.png'' red_2x2))
           = (Normal (?cur, ?zeros, 1),
              \<lparr>trace = ?cap @ [Decode one_blue_2x2, ReadFile ''/g.png'', Decode red_2x2,
                  Pixelmatch (drop 2 red_2x2) (drop 2 one_blue_2x2) ?zeros 2 2],
               files = golden_at ''/g.png'' red_2x2\<rparr>)"
    by (simp add: script_defs step_defs demo_defs upt_rec)
  have enc: "encode (demo_env one_blue_2x2)
               \<lparr>width = width ?cur, height = height ?cur, data = ?zeros\<rparr>
             = Inr (2 # 2 # ?zeros)"
    by (simp add: demo_defs)
  note t = verify_mode_writes_only_the_diff [of demo_globals "demo_env one_blue_2x2"
      "''/g.png''" "golden_at ''/g.png'' red_2x2"]
  have rhs: "\<exists>current diffImageData numDiffPixels w1 encoded.
               compared demo_globals (demo_env one_blue_2x2) ''/g.png''
                 (start (golden_at ''/g.png'' red_2x2))
                 = (Normal (current, diffImageData, numDiffPixels), w1)
             \<and> numDiffPixels \<noteq> 0
             \<and> encode (demo_env one_blue_2x2) \<lparr>width = width current, height = height current,
                             data = diffImageData\<rparr> = Inr encoded"
    using cmp enc by (intro exI conjI) (assumption, simp, assumption)
  have A: "files (snd (run demo_globals (demo_env one_blue_2x2) ''/g.png'' False
                    (start (golden_at ''/g.png'' red_2x2)))) ''/g.png''
             = golden_at ''/g.png'' red_2x2 ''/g.png''
          \<and> (\<forall>b. WriteFile ''/g.png'' b
          \<notin> set (trace (snd (run demo_globals (demo_env one_blue_2x2) ''/g.png'' False
                                 (start (golden_at ''/g.png'' red_2x2))))))"
    using t ne by blast
  have B: "\<exists>b. WriteFile (screenshotDiffPath demo_globals) b
          \<in> set (trace (snd (run demo_globals (demo_env one_blue_2x2) ''/g.png'' False
                                 (start (golden_at ''/g.png'' red_2x2)))))"
    using t rhs by blast
  show ?thesis using ne A B by (simp add: golden_at_def)
qed

subsection \<open>Identical images\<close>

lemma differing_pixels_same: "differing_pixels channels a a w h = []"
  by (simp add: differing_pixels_def)

lemma pixel_diff_same:
  "pixel_diff channels paint a a (replicate (length a) 0) w h
     = Inr (0, paint a a (replicate (length a) 0))"
  by (simp add: pixel_diff_def differing_pixels_same)

text \<open>
  Claim C8. With the pixel-diff primitive of the specification, a golden file that
  decodes to the same image as the screenshot gives a count of 0: the run prints that
  the golden matches, writes nothing and ends with exit code 0.
\<close>

theorem identical_images_match:
  assumes "pixelmatch env = pixel_diff channels paint"
    and "capture g env (start fs) = (Normal buf, w1)"
    and "decode env buf = Inr img"
    and "fs goldenPath = Some goldenBytes"
    and "decode env goldenBytes = Inr img"
  shows "compared g env goldenPath (start fs) =
           (Normal (img, paint (data img) (data img) (replicate (length (data img)) 0), 0),
            w1\<lparr>trace := trace w1 @
                 [Decode buf, ReadFile goldenPath, Decode goldenBytes,
                  Pixelmatch (data img) (data img) (replicate (length (data img)) 0)
                    (width img) (height img)]\<rparr>)
       \<and> run g env goldenPath False (start fs) =
           (Normal (),
            w1\<lparr>trace := trace w1 @
                 [Decode buf, ReadFile goldenPath, Decode goldenBytes,
                  Pixelmatch (data img) (data img) (replicate (length (data img)) 0)
                    (width img) (height img),
                  ConsoleError [Str ''diff perc'', Quot 0 (width img * height img)],
                  ConsoleInfo [Str ''Screenshot golden matches.'']]\<rparr>)
       \<and> exit_code (fst (run g env goldenPath False (start fs))) = 0
       \<and> files (snd (run g env goldenPath False (start fs))) = fs"
proof -
  let ?out = "paint (data img) (data img) (replicate (length (data img)) 0)"
  let ?w2 = "w1\<lparr>trace := trace w1 @
                 [Decode buf, ReadFile goldenPath, Decode goldenBytes,
                  Pixelmatch (data img) (data img) (replicate (length (data img)) 0)
                    (width img) (height img)]\<rparr>"
  have fs: "files w1 = fs"
    using capture_files [OF assms(2)] by (simp add: start_def)
  have cmp: "compared g env goldenPath (start fs) = (Normal (img, ?out, 0), ?w2)"
    using assms fs
    by (simp add: compared_def compare_screenshots_def step_defs pixel_diff_same)
  have run: "run g env goldenPath False (start fs) =
           (Normal (),
            w1\<lparr>trace := trace w1 @
                 [Decode buf, ReadFile goldenPath, Decode goldenBytes,
                  Pixelmatch (data img) (data img) (replicate (length (data img)) 0)
                    (width img) (height img),
                  ConsoleError [Str ''diff perc'', Quot 0 (width img * height img)],
                  ConsoleInfo [Str ''Screenshot golden matches.'']]\<rparr>)"
    by (simp add: run_after_compared [OF cmp] report_zero catch_def)
  show ?thesis
    using cmp fs by (simp add: run exit_code_def)
qed

text \<open>
  A verify run of a red screenshot against the same red golden.
\<close>

theorem identical_images_match_witness:
  "run demo_globals (demo_env red_2x2) ''/g.png'' False (start (golden_at ''/g.png'' red_2x2)) =
     (Normal (),
      \<lparr>trace = [ImportPrerender, Launch ''/runfiles/chrome'' True, NewPage,
                Goto ''file:///out/index.html'', Evaluate (800, 600), SetViewport 1920 2400,
                Screenshot (1920, 2400), Close,
                Decode red_2x2, ReadFile ''/g.png'', Decode red_2x2,
                Pixelmatch (drop 2 red_2x2) (drop 2 red_2x2)
                  [0, 0, 0, 0, 0, 0, 0, 0, 0, 0, 0, 0, 0, 0, 0, 0] 2 2,
                ConsoleError [Str ''diff perc'', Quot 0 4],
                ConsoleInfo [Str ''Screenshot golden matches.'']],
       files = golden_at ''/g.png'' red_2x2\<rparr>)"
proof -
  let ?w1 = "\<lparr>trace = [ImportPrerender, Launch ''/runfiles/chrome'' True, NewPage,
      Goto ''file:///out/index.html'', Evaluate (800, 600), SetViewport 1920 2400,
      Screenshot (1920, 2400), Close], files = golden_at ''/g.png'' red_2x2\<rparr>"
  have 1: "pixelmatch (demo_env red_2x2) = pixel_diff 4 (\<lambda>a b out. out)"
    by (simp add: demo_env_def)
  have 2: "capture demo_globals (demo_env red_2x2) (start (golden_at ''/g.png'' red_2x2))
             = (Normal red_2x2, ?w1)"
    by (simp add: script_defs step_defs demo_defs)
  have 3: "decode (demo_env red_2x2) red_2x2
             = Inr \<lparr>width = 2, height = 2, data = drop 2 red_2x2\<rparr>"
    by (simp add: demo_defs)
  have 4: "golden_at ''/g.png'' red_2x2 ''/g.png'' = Some red_2x2"
    by (simp add: golden_at_def)
  show ?thesis
    using identical_images_match [OF 1 2 3 4 3]
    by (simp add: red_2x2_def)
qed

subsection \<open>The command line and the environment\<close>

lemma main_cases:
  "main g env gp b =
     (if b then bind (capture g env) (approve env gp)
      else bind (compared g env gp) (report g env))"
  by (cases b) (simp_all add: main_approve main_verify)

text \<open>
  Claim C9. \<open>approveGolden\<close> is true exactly when the second argument exists and is the
  string \<^verbatim>\<open>true\<close>; \<^verbatim>\<open>false\<close>, \<^verbatim>\<open>True\<close>, \<^verbatim>\<open>1\<close> and a missing argument give false, and
  \<^verbatim>\<open>main\<close> then takes the comparison branch.
\<close>

theorem approve_only_for_the_string_true:
  "approveGolden_of args = (1 < length args \<and> args ! 1 = ''true'')
   \<and> approveGolden_of [a, ''true'']
   \<and> \<not> approveGolden_of [a, ''false'']
   \<and> \<not> approveGolden_of [a, ''True'']
   \<and> \<not> approveGolden_of [a, ''1'']
   \<and> \<not> approveGolden_of [a]
   \<and> main g env goldenPath (approveGolden_of args) =
       (if 1 < length args \<and> args ! 1 = ''true''
        then bind (capture g env) (approve env goldenPath)
        else bind (compared g env goldenPath) (report g env))
   \<and> (penv ''WEB_TEST_METADATA'' = Some metadataPath
        \<and> runfiles_resolve env (Some metadataPath) = Inr resolved
        \<and> require_metadata env resolved = Inr metadata
        \<and> chromium_of metadata = Inr chromium
        \<and> penv ''TEST_UNDECLARED_OUTPUTS_DIR'' = Some dir
        \<and> resolveWorkspaceRelative env (js_index (drop 2 argv) 0) = Inr goldenPath
      \<longrightarrow> script env penv argv True =
            run \<lparr>chromiumExecutableRootPath = chromium,
                 screenshotDiffPath = join_strings env dir ''image-diff.png'',
                 process_env = penv\<rparr>
              env goldenPath (3 < length argv \<and> argv ! 3 = ''true''))"
proof -
  have flag: "approveGolden_of xs = (1 < length xs \<and> xs ! 1 = ''true'')" for xs
    by (auto simp add: approveGolden_of_def js_index_def)
  have drop2: "(1 < length (drop 2 argv) \<and> drop 2 argv ! 1 = ''true'')
                 = (3 < length argv \<and> argv ! 3 = ''true'')"
    by (auto simp add: numeral_3_eq_3)
  have m: "main g env goldenPath (approveGolden_of args) =
       (if 1 < length args \<and> args ! 1 = ''true''
        then bind (capture g env) (approve env goldenPath)
        else bind (compared g env goldenPath) (report g env))"
    unfolding flag by (rule main_cases)
  have s: "penv ''WEB_TEST_METADATA'' = Some metadataPath
        \<and> runfiles_resolve env (Some metadataPath) = Inr resolved
        \<and> require_metadata env resolved = Inr metadata
        \<and> chromium_of metadata = Inr chromium
        \<and> penv ''TEST_UNDECLARED_OUTPUTS_DIR'' = Some dir
        \<and> resolveWorkspaceRelative env (js_index (drop 2 argv) 0) = Inr goldenPath
      \<longrightarrow> script env penv argv True =
            run \<lparr>chromiumExecutableRootPath = chromium,
                 screenshotDiffPath = join_strings env dir ''image-diff.png'',
                 process_env = penv\<rparr>
              env goldenPath (3 < length argv \<and> argv ! 3 = ''true'')"
  proof
    assume a: "penv ''WEB_TEST_METADATA'' = Some metadataPath
        \<and> runfiles_resolve env (Some metadataPath) = Inr resolved
        \<and> require_metadata env resolved = Inr metadata
        \<and> chromium_of metadata = Inr chromium
        \<and> penv ''TEST_UNDECLARED_OUTPUTS_DIR'' = Some dir
        \<and> resolveWorkspaceRelative env (js_index (drop 2 argv) 0) = Inr goldenPath"
    have "script env penv argv True =
            run \<lparr>chromiumExecutableRootPath = chromium,
                 screenshotDiffPath = join_strings env dir ''image-diff.png'',
                 process_env = penv\<rparr>
              env goldenPath (approveGolden_of (drop 2 argv))"
      using a by (intro ext) (simp add: script_def join_def bind_def attempt_def)
    then show "script env penv argv True =
            run \<lparr>chromiumExecutableRootPath = chromium,
                 screenshotDiffPath = join_strings env dir ''image-diff.png'',
                 process_env = penv\<rparr>
              env goldenPath (3 < length argv \<and> argv ! 3 = ''true'')"
      by (simp only: flag drop2)
  qed
  show ?thesis
    using flag [of args] m s by (simp add: flag)
qed

text \<open>
  A command line whose second argument is \<^verbatim>\<open>false\<close>: the script runs in verify mode.
\<close>

theorem approve_only_for_the_string_true_witness:
  "script (demo_env red_2x2)
     [''WEB_TEST_METADATA'' \<mapsto> ''m.json'', ''TEST_UNDECLARED_OUTPUTS_DIR'' \<mapsto> ''/out'']
     [''node'', ''runner.js'', ''g.png'', ''false''] True =
   run \<lparr>chromiumExecutableRootPath = Some ''chrome'',
        screenshotDiffPath = ''/out/image-diff.png'',
        process_env =
          [''WEB_TEST_METADATA'' \<mapsto> ''m.json'', ''TEST_UNDECLARED_OUTPUTS_DIR'' \<mapsto> ''/out'']\<rparr>
     (demo_env red_2x2) ''/runfiles/g.png'' False"
proof -
  let ?penv = "[''WEB_TEST_METADATA'' \<mapsto> ''m.json'',
                ''TEST_UNDECLARED_OUTPUTS_DIR'' \<mapsto> ''/out'']"
  let ?argv = "[''node'', ''runner.js'', ''g.png'', ''false'']"
  have 1: "?penv ''WEB_TEST_METADATA'' = Some ''m.json''" by simp
  have 2: "runfiles_resolve (demo_env red_2x2) (Some ''m.json'') = Inr ''/runfiles/m.json''"
    by (simp add: demo_defs)
  have 3: "require_metadata (demo_env red_2x2) ''/runfiles/m.json''
             = Inr \<lparr>webTestFiles = Some [Some ''chrome'']\<rparr>"
    by (simp add: demo_defs)
  have 4: "chromium_of \<lparr>webTestFiles = Some [Some ''chrome'']\<rparr> = Inr (Some ''chrome'')"
    by (simp add: chromium_of_def)
  have 5: "?penv ''TEST_UNDECLARED_OUTPUTS_DIR'' = Some ''/out''" by simp
  have 6: "resolveWorkspaceRelative (demo_env red_2x2) (js_index (drop 2 ?argv) 0)
             = Inr ''/runfiles/g.png''"
    by (simp add: demo_defs js_index_def)
  have 7: "join_strings (demo_env red_2x2) ''/out'' ''image-diff.png'' = ''/out/image-diff.png''"
    by (simp add: demo_defs)
  show ?thesis
    using approve_only_for_the_string_true [where penv = ?penv and env = "demo_env red_2x2"
        and argv = ?argv and metadataPath = "''m.json''" and resolved = "''/runfiles/m.json''"
        and metadata = "\<lparr>webTestFiles = Some [Some ''chrome'']\<rparr>"
        and chromium = "Some ''chrome''" and dir = "''/out''"
        and goldenPath = "''/runfiles/g.png''"]
      1 2 3 4 5 6 7
    by simp
qed

text \<open>
  Claim C10. \<^verbatim>\<open>TEST_UNDECLARED_OUTPUTS_DIR\<close> is read and joined with \<^verbatim>\<open>image-diff.png\<close> while
  the module is loaded, before the arguments are looked at. When the variable is not
  defined the process ends with exit code 1 whatever the arguments are: \<^verbatim>\<open>main\<close> is never
  started, nothing is written, and the result does not depend on the arguments.
\<close>

theorem undefined_output_directory_fails:
  assumes "penv ''TEST_UNDECLARED_OUTPUTS_DIR'' = None"
  shows "exit_code (fst (script env penv argv is_main (start fs))) = 1
       \<and> files (snd (script env penv argv is_main (start fs))) = fs
       \<and> list_all (\<lambda>e. e \<noteq> ImportPrerender \<and> written_path e = None)
           (trace (snd (script env penv argv is_main (start fs))))
       \<and> script env penv argv is_main (start fs) = script env penv argv' is_main' (start fs)"
  using assms
  by (simp add: script_def join_def step_defs start_def exit_code_def
      split: option.splits sum.splits)

text \<open>
  A process environment without the variable, started in approve mode.
\<close>

theorem undefined_output_directory_fails_witness:
  "script (demo_env red_2x2) [''WEB_TEST_METADATA'' \<mapsto> ''m.json'']
     [''node'', ''runner.js'', ''g.png'', ''true''] True (start Map.empty)
     = (Throw TypeError, start Map.empty)
   \<and> exit_code (fst (script (demo_env red_2x2) [''WEB_TEST_METADATA'' \<mapsto> ''m.json'']
        [''node'', ''runner.js'', ''g.png'', ''true''] True (start Map.empty))) = 1"
proof -
  have 1: "[''WEB_TEST_METADATA'' \<mapsto> ''m.json''] ''TEST_UNDECLARED_OUTPUTS_DIR'' = None"
    by simp
  have 2: "script (demo_env red_2x2) [''WEB_TEST_METADATA'' \<mapsto> ''m.json'']
     [''node'', ''runner.js'', ''g.png'', ''true''] True (start Map.empty)
     = (Throw TypeError, start Map.empty)"
    by (simp add: script_def join_def step_defs demo_defs chromium_of_def)
  show ?thesis
    using undefined_output_directory_fails [of "[''WEB_TEST_METADATA'' \<mapsto> ''m.json'']"
        "demo_env red_2x2" "[''node'', ''runner.js'', ''g.png'', ''true'']" True Map.empty,
        OF 1] 2
    by simp
qed

end
